theory Spec2Isabelle
  imports Main "HOL-Library.AList" "HOL-Library.Sublist"
begin

section \<open>JavaScript values, objects and JSON documents\<close>

text \<open>
  The daemon keeps its configuration, its wire messages and its config file as JavaScript
  objects that are serialised with \<^verbatim>\<open>JSON.stringify\<close>. Values are modelled as a tree;
  an object is an association list in insertion order, which is the order JavaScript keeps
  for string keys. Numbers are the integers the protocol carries (kbps, ms, ports, byte
  counters).
\<close>

datatype json =
    JUndefined
  | JNull
  | JBool bool
  | JNum int
  | JStr string
  | JArr "json list"
  | JObj "(string \<times> json) list"

type_synonym obj = "(string \<times> json) list"

text \<open>Truthiness, as \<^verbatim>\<open>if (v)\<close> and \<^verbatim>\<open>!v\<close> read a value.\<close>

fun truthy :: "json \<Rightarrow> bool" where
  "truthy JUndefined = False"
| "truthy JNull = False"
| "truthy (JBool b) = b"
| "truthy (JNum n) = (n \<noteq> 0)"
| "truthy (JStr s) = (s \<noteq> [])"
| "truthy (JArr xs) = True"
| "truthy (JObj kvs) = True"

text \<open>\<^verbatim>\<open>o[k]\<close>, \<^verbatim>\<open>o[k] = v\<close> and \<^verbatim>\<open>delete o[k]\<close> on own properties.\<close>

definition obj_get :: "obj \<Rightarrow> string \<Rightarrow> json" where
  "obj_get ob k = (case map_of ob k of None \<Rightarrow> JUndefined | Some v \<Rightarrow> v)"

definition obj_set :: "obj \<Rightarrow> string \<Rightarrow> json \<Rightarrow> obj" where
  "obj_set ob k v = AList.update k v ob"

definition obj_delete :: "obj \<Rightarrow> string \<Rightarrow> obj" where
  "obj_delete ob k = AList.delete k ob"

definition obj_keys :: "obj \<Rightarrow> string list" where
  "obj_keys ob = map fst ob"

text \<open>
  \<^verbatim>\<open>JSON.stringify\<close>: the document that reaches the wire or the disk. A member whose
  value is \<^verbatim>\<open>undefined\<close> is left out of an object, and is written as \<^verbatim>\<open>null\<close> inside an
  array. The text itself is not modelled: a document is identified with what
  \<^verbatim>\<open>JSON.parse\<close> reads back from it.
\<close>

definition defined_member :: "string \<times> json \<Rightarrow> bool" where
  "defined_member kv = (snd kv \<noteq> JUndefined)"

definition null_if_undefined :: "json \<Rightarrow> json" where
  "null_if_undefined v = (if v = JUndefined then JNull else v)"

primrec JSON_stringify :: "json \<Rightarrow> json" where
  "JSON_stringify JUndefined = JUndefined"
| "JSON_stringify JNull = JNull"
| "JSON_stringify (JBool b) = JBool b"
| "JSON_stringify (JNum n) = JNum n"
| "JSON_stringify (JStr s) = JStr s"
| "JSON_stringify (JArr xs) = JArr (map null_if_undefined (map JSON_stringify xs))"
| "JSON_stringify (JObj kvs) =
     JObj (filter defined_member (map (map_prod id JSON_stringify) kvs))"

text \<open>The keys of a document that is an object (none for any other value).\<close>

fun doc_keys :: "json \<Rightarrow> string list" where
  "doc_keys (JObj kvs) = map fst kvs"
| "doc_keys v = []"

fun doc_get :: "json \<Rightarrow> string \<Rightarrow> json" where
  "doc_get (JObj kvs) k = obj_get kvs k"
| "doc_get v k = JUndefined"

section \<open>Numbers as decimal text\<close>

text \<open>What string concatenation makes of an integer: \<^verbatim>\<open>300000 + "\n"\<close>.\<close>

definition digit_char :: "nat \<Rightarrow> char" where
  "digit_char d = ''0123456789'' ! d"

fun string_of_nat :: "nat \<Rightarrow> string" where
  "string_of_nat n =
     (if n < 10 then [digit_char n]
      else string_of_nat (n div 10) @ [digit_char (n mod 10)])"

declare string_of_nat.simps [simp del]

definition string_of_int :: "int \<Rightarrow> string" where
  "string_of_int i =
     (if i < 0 then CHR ''-'' # string_of_nat (nat (- i)) else string_of_nat (nat i))"

definition newline :: string where
  "newline = [CHR 0x0A]"

section \<open>Numeric readings of values\<close>

text \<open>
  The relational operators and the product convert their operands to numbers. A number
  reads as itself, \<^verbatim>\<open>true\<close> as 1, \<^verbatim>\<open>false\<close> and \<^verbatim>\<open>null\<close> as 0, \<^verbatim>\<open>undefined\<close> as
  \<^verbatim>\<open>NaN\<close>. How the language runtime reads a string, an array or an object is the
  parameter \<open>rt\<close> of the functions below: the daemon does not define it. Every comparison
  with \<^verbatim>\<open>NaN\<close> is false, every product with \<^verbatim>\<open>NaN\<close> is \<^verbatim>\<open>NaN\<close>. The numbers of the
  model are the integers; readings with a fraction are not covered.
\<close>

datatype jsnum = Num int | NaN

definition to_number :: "(json \<Rightarrow> jsnum) \<Rightarrow> json \<Rightarrow> jsnum" where
  "to_number rt v =
     (case v of
        JNum n \<Rightarrow> Num n
      | JBool b \<Rightarrow> Num (if b then 1 else 0)
      | JNull \<Rightarrow> Num 0
      | JUndefined \<Rightarrow> NaN
      | JStr x \<Rightarrow> rt v
      | JArr xs \<Rightarrow> rt v
      | JObj kvs \<Rightarrow> rt v)"

definition num_less :: "jsnum \<Rightarrow> jsnum \<Rightarrow> bool" where
  "num_less a b =
     (case a of
        Num x \<Rightarrow> (case b of Num y \<Rightarrow> x < y | NaN \<Rightarrow> False)
      | NaN \<Rightarrow> False)"

definition num_times :: "jsnum \<Rightarrow> int \<Rightarrow> jsnum" where
  "num_times a k = (case a of Num x \<Rightarrow> Num (x * k) | NaN \<Rightarrow> NaN)"

definition string_of_num :: "jsnum \<Rightarrow> string" where
  "string_of_num a = (case a of Num x \<Rightarrow> string_of_int x | NaN \<Rightarrow> ''NaN'')"

text \<open>\<^verbatim>\<open>v == undefined\<close>: true of \<^verbatim>\<open>undefined\<close> and of \<^verbatim>\<open>null\<close> only.\<close>

definition nullish :: "json \<Rightarrow> bool" where
  "nullish v = (v = JUndefined \<or> v = JNull)"

section \<open>Connections, files and observable effects\<close>

text \<open>
  A connection object of the WebSocket library with the fields the daemon adds to it.
  \<open>cid\<close> stands for the identity of the object (what \<^verbatim>\<open>c !== except\<close> compares);
  \<open>senderId\<close> is \<open>JUndefined\<close> when the field is absent.
\<close>

record conn =
  cid :: nat
  isAuthed :: bool
  lastActive :: int
  senderId :: json
  authToken :: "string option"

text \<open>A file holds either text or a JSON document.\<close>

datatype content = Text string | Doc json

text \<open>
  What the daemon does to the outside world, in the order it does it: whole-file writes,
  frames sent on a connection, programs run (\<^verbatim>\<open>killall\<close> among them), a socket
  terminated, a timer armed, a socket opened to an endpoint from a local address, a value
  printed with \<^verbatim>\<open>console.log\<close>.
\<close>

datatype event =
    WriteFile string content
  | Send nat json
  | Spawn string "json list"
  | Terminate nat
  | SetTimeout string int
  | Connect string string
  | ConsoleLog json

record netif_entry =
  ip :: string
  txb :: int
  tp :: int
  enabled :: bool

record notification =
  n_name :: string
  n_type :: string
  n_msg :: string
  is_dismissable :: bool
  is_persistent :: bool
  duration :: int

record pnotification =
  shown :: notification
  updated :: int
  last_sent :: "int option"

text \<open>
  What the daemon reads from \<^verbatim>\<open>setup.json\<close> at start: the two runtime files of the
  streaming supervisor, the executables derived from the configured paths, and the SSH
  account (absent when SSH control is not set up).
\<close>

record setup_json =
  bitrate_file :: string
  ips_file :: string
  belacoderExec :: string
  srtlaSendExec :: string
  ssh_user :: "string option"

text \<open>
  The process-wide variables of the daemon, the files it owns, the clock that
  \<^verbatim>\<open>getms()\<close> reads and the effects so far. \<open>pipelines\<close> is what \<^verbatim>\<open>getPipelines()\<close>
  finds in the pipeline directories (id, name and path of each file); \<open>wifiStatus\<close> is
  what \<^verbatim>\<open>wifiBuildMsg()\<close> returns; \<open>clients\<close> is \<^verbatim>\<open>wss.clients\<close>. The Wi-Fi manager,
  the sensors and the package upgrades appear only as these stored values.

  \<open>netif\<close>, \<open>tempTokens\<close> and \<open>persistentTokens\<close> are plain objects, so a lookup by name
  also finds what they inherit from \<^verbatim>\<open>Object.prototype\<close>. The daemon can assign the
  property \<^verbatim>\<open>enabled\<close> on the prototype and on the functions it holds:
  \<open>proto_enabled\<close> is \<^verbatim>\<open>Object.prototype.enabled\<close> (\<open>None\<close> while it was never assigned),
  \<open>builtin_enabled\<close> the \<^verbatim>\<open>enabled\<close> property of the inherited functions, by the name
  under which the prototype holds them.
\<close>

record state =
  setup_doc :: setup_json
  config :: obj
  sshPasswordHash :: json
  tempTokens :: "string list"
  persistentTokens :: "string list"
  netif :: "(string \<times> netif_entry) list"
  proto_enabled :: "bool option"
  builtin_enabled :: "(string \<times> bool) list"
  isStreaming :: bool
  softUpdateStatus :: json
  availableUpdates :: json
  sshStatus :: json
  wifiStatus :: json
  sensors :: json
  revisions :: json
  pipelines :: "(string \<times> string \<times> string) list"
  persistentNotifications :: "(string \<times> pnotification) list"
  remoteWs :: "conn option"
  remoteStatusHandled :: bool
  remoteConnectTimer :: bool
  prevRemoteBindAddr :: "nat option"
  clients :: "conn list"
  files :: "(string \<times> content) list"
  now :: int
  trace :: "event list"

definition CONFIG_FILE :: string where
  "CONFIG_FILE = ''config.json''"

definition BCRYPT_ROUNDS :: nat where
  "BCRYPT_ROUNDS = 10"

definition ACTIVE_TO :: int where
  "ACTIVE_TO = 15000"

definition getms :: "state \<Rightarrow> int" where
  "getms s = now s"

definition emit :: "event \<Rightarrow> state \<Rightarrow> state" where
  "emit e s = s\<lparr>trace := trace s @ [e]\<rparr>"

definition fs_writeFileSync :: "string \<Rightarrow> content \<Rightarrow> state \<Rightarrow> state" where
  "fs_writeFileSync path c s =
     emit (WriteFile path c) (s\<lparr>files := AList.update path c (files s)\<rparr>)"

definition read_file :: "state \<Rightarrow> string \<Rightarrow> content option" where
  "read_file s path = map_of (files s) path"

definition spawnSync :: "string \<Rightarrow> json list \<Rightarrow> state \<Rightarrow> state" where
  "spawnSync cmd args s = emit (Spawn cmd args) s"

definition conn_send :: "conn \<Rightarrow> json \<Rightarrow> state \<Rightarrow> state" where
  "conn_send c msg s = emit (Send (cid c) msg) s"

section \<open>What plain objects inherit\<close>

text \<open>
  The names that every plain object inherits from \<^verbatim>\<open>Object.prototype\<close>. The name
  \<^verbatim>\<open>__proto__\<close> yields the prototype itself, each of the others a function of its own.
  All of them are truthy and none of them is enumerable.
\<close>

definition object_prototype_keys :: "string list" where
  "object_prototype_keys =
     [''constructor'', ''__defineGetter__'', ''__defineSetter__'', ''hasOwnProperty'',
      ''__lookupGetter__'', ''__lookupSetter__'', ''isPrototypeOf'', ''propertyIsEnumerable'',
      ''toString'', ''valueOf'', ''__proto__'', ''toLocaleString'']"

text \<open>
  Whether a name that is not an own key of a plain object yields a truthy value there:
  the twelve names above, and \<^verbatim>\<open>enabled\<close> once the prototype carries \<^verbatim>\<open>true\<close> under it.
\<close>

definition inherited_truthy :: "state \<Rightarrow> string \<Rightarrow> bool" where
  "inherited_truthy s name =
     (name \<in> set object_prototype_keys \<or> (name = ''enabled'' \<and> proto_enabled s = Some True))"

text \<open>
  A \<^verbatim>\<open>for ... in\<close> loop over the interface table visits its own keys and then the
  enumerable keys it inherits. An assigned \<^verbatim>\<open>Object.prototype.enabled\<close> is such a key
  (unless an interface of that name hides it); the table yields the assigned boolean under
  it, and the \<^verbatim>\<open>enabled\<close> property of that boolean is again the inherited one. So the
  loops below meet one more enabled entry, with no \<^verbatim>\<open>ip\<close>, exactly when the prototype
  carries \<^verbatim>\<open>true\<close>.
\<close>

definition inherited_entry :: "state \<Rightarrow> bool" where
  "inherited_entry s = (proto_enabled s = Some True \<and> map_of (netif s) ''enabled'' = None)"

section \<open>Persistent store\<close>

text \<open>
  \<^verbatim>\<open>saveConfig\<close>: the SSH password hash joins the config object for the time of the
  serialisation and is deleted from it again before the file is written.
\<close>

definition saveConfig :: "state \<Rightarrow> state" where
  "saveConfig s =
     (let config1 = obj_set (config s) ''ssh_pass_hash'' (sshPasswordHash s);
          c = JSON_stringify (JObj config1);
          config2 = obj_delete config1 ''ssh_pass_hash''
      in fs_writeFileSync CONFIG_FILE (Doc c) (s\<lparr>config := config2\<rparr>))"

section \<open>WebSocket helpers\<close>

text \<open>\<^verbatim>\<open>buildMsg(type, data, id)\<close>: the frame \<^verbatim>\<open>{type: data, id: id}\<close> as serialised.\<close>

definition buildMsg :: "string \<Rightarrow> json \<Rightarrow> json \<Rightarrow> json" where
  "buildMsg type data ident =
     JSON_stringify (JObj (obj_set (obj_set [] type data) ''id'' ident))"

text \<open>
  A client receives a local broadcast when it is not the excepted connection, was active
  since \<open>activeMin\<close> and is authenticated.
\<close>

definition receives :: "int \<Rightarrow> conn option \<Rightarrow> conn \<Rightarrow> bool" where
  "receives activeMin except c =
     (Some (cid c) \<noteq> map_option cid except \<and> lastActive c \<ge> activeMin \<and> isAuthed c)"

definition broadcastMsgLocal ::
  "string \<Rightarrow> json \<Rightarrow> int \<Rightarrow> conn option \<Rightarrow> state \<Rightarrow> json \<times> state" where
  "broadcastMsgLocal type data activeMin except s =
     (let msg = buildMsg type data JUndefined
      in (msg, fold (\<lambda>c. if receives activeMin except c then conn_send c msg else id)
                 (clients s) s))"

definition broadcastMsg :: "string \<Rightarrow> json \<Rightarrow> int \<Rightarrow> state \<Rightarrow> state" where
  "broadcastMsg type data activeMin s =
     (let (msg, s1) = broadcastMsgLocal type data activeMin None s
      in case remoteWs s1 of
           Some r \<Rightarrow> if isAuthed r then conn_send r msg s1 else s1
         | None \<Rightarrow> s1)"

definition broadcastMsgExcept :: "conn \<Rightarrow> string \<Rightarrow> json \<Rightarrow> state \<Rightarrow> state" where
  "broadcastMsgExcept c type data s =
     (let (msg0, s1) = broadcastMsgLocal type data 0 (Some c) s
      in case remoteWs s1 of
           Some r \<Rightarrow>
             if isAuthed r then conn_send r (buildMsg type data (senderId c)) s1 else s1
         | None \<Rightarrow> s1)"

section \<open>Notification bus\<close>

definition notification_json :: "notification \<Rightarrow> json" where
  "notification_json n =
     JObj [(''name'', JStr (n_name n)), (''type'', JStr (n_type n)), (''msg'', JStr (n_msg n)),
           (''is_dismissable'', JBool (is_dismissable n)),
           (''is_persistent'', JBool (is_persistent n)),
           (''duration'', JNum (duration n))]"

text \<open>
  The rate limit of a stored notification:
  \<^verbatim>\<open>pn.last_sent && ((pn.last_sent + 1000) > getms())\<close>.
\<close>

definition rate_limited :: "pnotification \<Rightarrow> int \<Rightarrow> bool" where
  "rate_limited pn t =
     (case last_sent pn of None \<Rightarrow> False | Some ls \<Rightarrow> ls \<noteq> 0 \<and> ls + 1000 > t)"

text \<open>
  \<^verbatim>\<open>notificationSend\<close>. The result is \<open>Some False\<close> for \<^verbatim>\<open>false\<close> (rejected),
  \<open>None\<close> for \<^verbatim>\<open>undefined\<close> (stored but not sent) and \<open>Some True\<close> (sent). A stored entry
  takes the fields of the new notification and the time of the call; its \<open>last_sent\<close> is
  kept when the send is suppressed. The three readings of \<^verbatim>\<open>getms()\<close> within one call
  are one reading of the clock.
\<close>

definition notificationSend ::
  "conn option \<Rightarrow> string \<Rightarrow> string \<Rightarrow> string \<Rightarrow> int \<Rightarrow> bool \<Rightarrow> bool \<Rightarrow> state
     \<Rightarrow> bool option \<times> state" where
  "notificationSend c name type msg dur isPersistent isDismissable s =
     (if isPersistent \<and> c \<noteq> None then (Some False, s)
      else
        let notification =
              \<lparr>n_name = name, n_type = type, n_msg = msg, is_dismissable = isDismissable,
               is_persistent = isPersistent, duration = dur\<rparr>;
            old = map_of (persistentNotifications s) name;
            doSend = \<not> (isPersistent \<and>
                         (case old of None \<Rightarrow> False | Some pn \<Rightarrow> rate_limited pn (getms s)));
            s1 = (if isPersistent
                  then s\<lparr>persistentNotifications :=
                          AList.update name
                            \<lparr>shown = notification, updated = getms s,
                             last_sent = (if doSend then Some (getms s)
                                          else (case old of None \<Rightarrow> None
                                                | Some pn \<Rightarrow> last_sent pn))\<rparr>
                            (persistentNotifications s)\<rparr>
                  else s)
        in if \<not> doSend then (None, s1)
           else
             let notificationMsg = JObj [(''show'', JArr [notification_json notification])]
             in (Some True,
                 case c of
                   Some cn \<Rightarrow>
                     conn_send cn (buildMsg ''notification'' notificationMsg (senderId cn)) s1
                 | None \<Rightarrow> broadcastMsg ''notification'' notificationMsg 0 s1))"

definition notificationRemove :: "string \<Rightarrow> state \<Rightarrow> state" where
  "notificationRemove name s =
     broadcastMsg ''notification'' (JObj [(''remove'', JArr [JStr name])]) 0
       (s\<lparr>persistentNotifications := AList.delete name (persistentNotifications s)\<rparr>)"

text \<open>
  \<^verbatim>\<open>_notificationIsLive\<close>: \<open>None\<close> for \<^verbatim>\<open>false\<close> (expired), otherwise the seconds that
  remain (0 for a notification that never expires). \<^verbatim>\<open>Math.ceil(d - x / 1000)\<close> on
  integers is \<open>d - x div 1000\<close>. The expired entry is deleted by the caller below.
\<close>

definition notificationIsLive :: "pnotification \<Rightarrow> int \<Rightarrow> int option" where
  "notificationIsLive pn t =
     (if duration (shown pn) = 0 then Some 0
      else
        let remainingDuration = duration (shown pn) - (t - updated pn) div 1000
        in if remainingDuration \<le> 0 then None else Some remainingDuration)"

definition notificationSendPersistent :: "conn \<Rightarrow> state \<Rightarrow> state" where
  "notificationSendPersistent c s =
     (let live = filter (\<lambda>(name, pn). notificationIsLive pn (getms s) \<noteq> None)
                   (persistentNotifications s);
          notifications =
            List.map_filter
              (\<lambda>(name, pn).
                 map_option (\<lambda>remainingDuration.
                               notification_json ((shown pn)\<lparr>duration := remainingDuration\<rparr>))
                   (notificationIsLive pn (getms s)))
              (persistentNotifications s)
      in conn_send c (buildMsg ''notification'' (JObj [(''show'', JArr notifications)]) JUndefined)
           (s\<lparr>persistentNotifications := live\<rparr>))"

section \<open>Streaming supervisor: the bitrate\<close>

text \<open>
  The fields of a \<^verbatim>\<open>start\<close> or \<^verbatim>\<open>bitrate\<close> message; \<open>None\<close> is a field that is
  absent or \<^verbatim>\<open>null\<close> (what \<^verbatim>\<open>== undefined\<close> accepts). \<open>max_br\<close> is the value as the
  message carries it, of whatever type; an absent field is \<open>JUndefined\<close>.
\<close>

record params =
  delay :: "int option"
  pipeline :: "string option"
  max_br :: json
  srt_latency :: "int option"
  srt_streamid :: "string option"
  srtla_addr :: "string option"
  srtla_port :: "int option"

text \<open>
  \<^verbatim>\<open>setBitrate\<close>. The value is compared with the bounds through its numeric reading
  and stored as it came; the bitrate file takes the product of the stored value's reading.
  The result is \<open>JNull\<close> for \<^verbatim>\<open>null\<close>.
\<close>

definition minBr :: int where
  "minBr = 300"

definition setBitrate :: "(json \<Rightarrow> jsnum) \<Rightarrow> params \<Rightarrow> state \<Rightarrow> json \<times> state" where
  "setBitrate rt ps s =
     (if nullish (max_br ps) then (JNull, s)
      else if num_less (to_number rt (max_br ps)) (Num minBr)
              \<or> num_less (Num 12000) (to_number rt (max_br ps)) then (JNull, s)
      else
        let s1 = s\<lparr>config := obj_set (config s) ''max_br'' (max_br ps)\<rparr>;
            s2 = saveConfig s1;
            s3 = fs_writeFileSync (bitrate_file (setup_doc s2))
                   (Text (string_of_int (minBr * 1000) @ newline
                          @ string_of_num
                              (num_times (to_number rt (obj_get (config s2) ''max_br'')) 1000)
                          @ newline)) s2;
            s4 = spawnSync ''killall'' [JStr ''-HUP'', JStr ''belacoder''] s3
        in (obj_get (config s4) ''max_br'', s4))"

section \<open>Streaming supervisor: start and stop\<close>

text \<open>
  \<^verbatim>\<open>startError(conn, msg, id)\<close>: the notification carries the sender id given (when one
  is given), the status frame carries none.
\<close>

definition startError :: "conn \<Rightarrow> string \<Rightarrow> json \<Rightarrow> state \<Rightarrow> state" where
  "startError c msg ident s =
     (let c1 = (if ident \<noteq> JUndefined then c\<lparr>senderId := ident\<rparr> else c);
          s1 = snd (notificationSend (Some c1) ''start_error'' ''error'' msg 10 False True s)
      in conn_send c (buildMsg ''status'' (JObj [(''is_streaming'', JBool False)]) JUndefined) s1)"

definition searchPipelines :: "state \<Rightarrow> string \<Rightarrow> string option" where
  "searchPipelines s ident = map_option snd (map_of (pipelines s) ident)"

definition getPipelineList :: "state \<Rightarrow> json" where
  "getPipelineList s = JObj (map (\<lambda>(ident, name, path). (ident, JStr name)) (pipelines s))"

text \<open>
  \<^verbatim>\<open>updateConfig\<close>. The checks run in the order of the source, and the bitrate check is
  the call of \<^verbatim>\<open>setBitrate\<close>. \<open>dns_resolves\<close> tells whether \<^verbatim>\<open>dns.lookup\<close> answers
  without an error; its callback runs on the state that \<^verbatim>\<open>updateConfig\<close> leaves.
\<close>

definition updateConfig ::
  "(json \<Rightarrow> jsnum) \<Rightarrow> (string \<Rightarrow> bool) \<Rightarrow> conn \<Rightarrow> params
     \<Rightarrow> (string \<Rightarrow> state \<Rightarrow> state) \<Rightarrow> state \<Rightarrow> state" where
  "updateConfig rt dns_resolves c ps callback s =
     (case delay ps of
        None \<Rightarrow> startError c ''audio delay not specified'' JUndefined s
      | Some d \<Rightarrow>
     if d < - 2000 \<or> d > 2000
     then startError c (''invalid delay '' @ string_of_int d) JUndefined s
     else
     (case pipeline ps of
        None \<Rightarrow> startError c ''pipeline not specified'' JUndefined s
      | Some pid \<Rightarrow>
     (case searchPipelines s pid of
        None \<Rightarrow> startError c ''pipeline not found'' JUndefined s
      | Some path \<Rightarrow>
     (case setBitrate rt ps s of
        (bitrate, s1) \<Rightarrow>
     if nullish bitrate then startError c ''invalid bitrate range: '' JUndefined s1
     else
     (case srt_latency ps of
        None \<Rightarrow> startError c ''SRT latency not specified'' JUndefined s1
      | Some lat \<Rightarrow>
     if lat < 100 \<or> lat > 10000
     then startError c (''invalid SRT latency '' @ string_of_int lat @ '' ms'') JUndefined s1
     else
     (case srt_streamid ps of
        None \<Rightarrow> startError c ''SRT streamid not specified'' JUndefined s1
      | Some streamid \<Rightarrow>
     (case srtla_addr ps of
        None \<Rightarrow> startError c ''SRTLA address not specified'' JUndefined s1
      | Some addr \<Rightarrow>
     (case srtla_port ps of
        None \<Rightarrow> startError c ''SRTLA port not specified'' JUndefined s1
      | Some port \<Rightarrow>
     if port \<le> 0 \<or> port > 65535
     then startError c (''invalid SRTLA port '' @ string_of_int port) JUndefined s1
     else
       let sender = senderId c
       in if dns_resolves addr
          then
            let cfg = obj_set (obj_set (obj_set (obj_set (obj_set (obj_set (obj_set (config s1)
                        ''delay'' (JNum d)) ''pipeline'' (JStr pid)) ''max_br'' bitrate)
                        ''srt_latency'' (JNum lat)) ''srt_streamid'' (JStr streamid))
                        ''srtla_addr'' (JStr addr)) ''srtla_port'' (JNum port);
                s2 = saveConfig (s1\<lparr>config := cfg\<rparr>);
                s3 = broadcastMsgExcept c ''config'' (JObj (config s2)) s2
            in callback path s3
          else startError c (''failed to resolve SRTLA addr '' @ addr) sender s1))))))))"

definition updateStatus :: "bool \<Rightarrow> state \<Rightarrow> state" where
  "updateStatus status s =
     broadcastMsg ''status'' (JObj [(''is_streaming'', JBool status)]) 0
       (s\<lparr>isStreaming := status\<rparr>)"

text \<open>
  \<^verbatim>\<open>genSrtlaIpList\<close>: one line per enabled entry that the loop meets; the number of
  lines. The inherited entry has no \<^verbatim>\<open>ip\<close>, which concatenates as \<^verbatim>\<open>undefined\<close>.
\<close>

definition genSrtlaIpList :: "state \<Rightarrow> nat \<times> state" where
  "genSrtlaIpList s =
     (let en = filter (\<lambda>(name, e). enabled e) (netif s);
          list = concat (map (\<lambda>(name, e). ip e @ newline) en)
                 @ (if inherited_entry s then ''undefined'' @ newline else []);
          count = length en + (if inherited_entry s then 1 else 0)
      in (count, fs_writeFileSync (ips_file (setup_doc s)) (Text list) s))"

definition updateSrtlaIps :: "state \<Rightarrow> state" where
  "updateSrtlaIps s =
     spawnSync ''killall'' [JStr ''-HUP'', JStr ''srtla_send''] (snd (genSrtlaIpList s))"

text \<open>
  \<^verbatim>\<open>spawnStreamingLoop\<close> starts the program when the streaming flag is set. The restart
  after the child's exit is a later event and is not part of the call.
\<close>

definition spawnStreamingLoop :: "string \<Rightarrow> json list \<Rightarrow> int \<Rightarrow> state \<Rightarrow> state" where
  "spawnStreamingLoop command args cooldown s =
     (if \<not> isStreaming s then s else emit (Spawn command args) s)"

definition isUpdating :: "state \<Rightarrow> bool" where
  "isUpdating s = (softUpdateStatus s \<noteq> JNull \<and> softUpdateStatus s \<noteq> JUndefined)"

definition sendStatus :: "conn \<Rightarrow> state \<Rightarrow> state" where
  "sendStatus c s =
     conn_send c
       (buildMsg ''status''
          (JObj [(''is_streaming'', JBool (isStreaming s)),
                 (''available_updates'', availableUpdates s),
                 (''updating'', softUpdateStatus s),
                 (''ssh'', if ssh_user (setup_doc s) = None then JUndefined else sshStatus s),
                 (''wifi'', wifiStatus s)])
          JUndefined) s"

definition start_callback :: "conn \<Rightarrow> json \<Rightarrow> string \<Rightarrow> state \<Rightarrow> state" where
  "start_callback c sender path s =
     (case genSrtlaIpList s of (n, s1) \<Rightarrow>
        if n < 1
        then startError c ''Failed to start, no available network connections'' sender s1
        else
          let s2 = s1\<lparr>isStreaming := True\<rparr>;
              s3 = spawnStreamingLoop (srtlaSendExec (setup_doc s2))
                     [JNum 9000, obj_get (config s2) ''srtla_addr'',
                      obj_get (config s2) ''srtla_port'', JStr (ips_file (setup_doc s2))] 100 s2;
              belacoderArgs =
                [JStr path, JStr ''127.0.0.1'', JStr ''9000'',
                 JStr ''-d'', obj_get (config s3) ''delay'',
                 JStr ''-b'', JStr (bitrate_file (setup_doc s3)),
                 JStr ''-l'', obj_get (config s3) ''srt_latency'']
                @ (if obj_get (config s3) ''srt_streamid'' \<noteq> JStr []
                   then [JStr ''-s'', obj_get (config s3) ''srt_streamid''] else []);
              s4 = spawnStreamingLoop (belacoderExec (setup_doc s3)) belacoderArgs 2000 s3
          in updateStatus True s4)"

definition start ::
  "(json \<Rightarrow> jsnum) \<Rightarrow> (string \<Rightarrow> bool) \<Rightarrow> conn \<Rightarrow> params \<Rightarrow> state \<Rightarrow> state" where
  "start rt dns_resolves c ps s =
     (if isStreaming s \<or> isUpdating s then sendStatus c s
      else updateConfig rt dns_resolves c ps (start_callback c (senderId c)) s)"

definition stop :: "state \<Rightarrow> state" where
  "stop s =
     spawnSync ''killall'' [JStr ''belacoder'']
       (spawnSync ''killall'' [JStr ''srtla_send''] (updateStatus False s))"

section \<open>Network-interface monitor\<close>

definition netif_json :: "(string \<times> netif_entry) list \<Rightarrow> json" where
  "netif_json tbl =
     JObj (map (\<lambda>(name, e).
                  (name, JObj [(''ip'', JStr (ip e)), (''txb'', JNum (txb e)),
                               (''tp'', JNum (tp e)), (''enabled'', JBool (enabled e))])) tbl)"

text \<open>
  One block of the \<^verbatim>\<open>ifconfig\<close> output as the three matches of \<^verbatim>\<open>updateNetif\<close> read it:
  the name before the first colon, the address after \<^verbatim>\<open>inet\<close> (if any) and the byte
  count of the \<^verbatim>\<open>TX packets\<close> line (if any). The text matching itself and the Wi-Fi
  device index fed from the same loop are outside the model.
\<close>

record ifconfig_block =
  if_name :: string
  if_inet :: "string option"
  if_txbytes :: "int option"

definition excluded_name :: "string \<Rightarrow> bool" where
  "excluded_name name = (name = ''lo'' \<or> prefix ''docker'' name \<or> prefix ''l4tbr'' name)"

text \<open>
  The body of the loop over the blocks. A block without a \<^verbatim>\<open>TX packets\<close> line raises
  inside the \<^verbatim>\<open>try\<close> and is skipped like the excluded ones.
\<close>

definition scan_interface ::
  "(string \<times> netif_entry) list \<Rightarrow> ifconfig_block
     \<Rightarrow> bool \<times> (string \<times> netif_entry) list \<Rightarrow> bool \<times> (string \<times> netif_entry) list" where
  "scan_interface old b acc =
     (case acc of (foundNewInt, newints) \<Rightarrow>
        if excluded_name (if_name b) then acc
        else
          (case if_inet b of
            None \<Rightarrow> acc
          | Some inetAddr \<Rightarrow>
              (case if_txbytes b of
                 None \<Rightarrow> acc
               | Some txBytes \<Rightarrow>
                   let prev = map_of old (if_name b);
                       tp1 = (case prev of Some p \<Rightarrow> txBytes - txb p | None \<Rightarrow> 0);
                       enabled1 = (case prev of
                                     Some p \<Rightarrow> (if enabled p = False then False else True)
                                   | None \<Rightarrow> True)
                   in (foundNewInt \<or> (case prev of None \<Rightarrow> True | Some p \<Rightarrow> ip p \<noteq> inetAddr),
                       AList.update (if_name b)
                         \<lparr>ip = inetAddr, txb = txBytes, tp = tp1, enabled = enabled1\<rparr>
                         newints))))"

text \<open>
  \<^verbatim>\<open>updateNetif\<close>, the callback of the poll; \<open>None\<close> is a failed \<^verbatim>\<open>ifconfig\<close> run.
\<close>

definition updateNetif :: "ifconfig_block list option \<Rightarrow> state \<Rightarrow> state" where
  "updateNetif res s =
     (case res of
        None \<Rightarrow> s
      | Some interfaces \<Rightarrow>
          (case fold (scan_interface (netif s)) interfaces (False, []) of
             (foundNewInt, newints) \<Rightarrow>
               let s1 = s\<lparr>netif := newints\<rparr>;
                   s2 = broadcastMsg ''netif'' (netif_json (netif s1)) (getms s1 - ACTIVE_TO) s1
               in if foundNewInt \<and> isStreaming s2 then updateSrtlaIps s2 else s2))"

definition enabled_count :: "(string \<times> netif_entry) list \<Rightarrow> nat" where
  "enabled_count tbl = length (filter (\<lambda>(name, e). enabled e) tbl)"

definition countActiveNetif :: "state \<Rightarrow> nat" where
  "countActiveNetif s = enabled_count (netif s) + (if inherited_entry s then 1 else 0)"

text \<open>
  A \<^verbatim>\<open>netif\<close> message. \<open>m_name\<close> is the property key that \<^verbatim>\<open>msg['name']\<close> makes;
  \<open>m_ip\<close> is the address, a string when given, and \<open>None\<close> when the field is absent or
  \<^verbatim>\<open>null\<close>; \<open>m_enabled\<close> is \<open>None\<close> when the field is neither \<^verbatim>\<open>true\<close> nor
  \<^verbatim>\<open>false\<close>.
\<close>

record netif_msg =
  m_name :: string
  m_ip :: "string option"
  m_enabled :: "bool option"

text \<open>
  What \<^verbatim>\<open>netif[name]\<close> yields when it is truthy: an entry of the table, the prototype
  (for \<^verbatim>\<open>__proto__\<close>), one of the inherited functions, or the boolean \<^verbatim>\<open>true\<close> that
  was assigned to \<^verbatim>\<open>Object.prototype.enabled\<close>.
\<close>

datatype netif_ref = OwnEntry netif_entry | ProtoObject | BuiltinFn string | InheritedTrue

definition netif_lookup :: "state \<Rightarrow> string \<Rightarrow> netif_ref option" where
  "netif_lookup s name =
     (case map_of (netif s) name of
        Some e \<Rightarrow> Some (OwnEntry e)
      | None \<Rightarrow>
          if name = ''__proto__'' then Some ProtoObject
          else if name \<in> set object_prototype_keys then Some (BuiltinFn name)
          else if name = ''enabled'' \<and> proto_enabled s = Some True then Some InheritedTrue
          else None)"

text \<open>\<^verbatim>\<open>int.ip\<close>: only an entry of the table has one.\<close>

definition ref_ip :: "netif_ref \<Rightarrow> string option" where
  "ref_ip r = (case r of OwnEntry e \<Rightarrow> Some (ip e) | _ \<Rightarrow> None)"

text \<open>
  Whether \<^verbatim>\<open>int.enabled\<close> is truthy: the field of an entry, the property of the
  prototype, the own property of a function and else the one it inherits, the inherited
  property of a boolean.
\<close>

definition ref_enabled :: "state \<Rightarrow> netif_ref \<Rightarrow> bool" where
  "ref_enabled s r =
     (case r of
        OwnEntry e \<Rightarrow> enabled e
      | ProtoObject \<Rightarrow> proto_enabled s = Some True
      | BuiltinFn f \<Rightarrow>
          (case map_of (builtin_enabled s) f of
             Some b \<Rightarrow> b
           | None \<Rightarrow> proto_enabled s = Some True)
      | InheritedTrue \<Rightarrow> proto_enabled s = Some True)"

text \<open>
  \<^verbatim>\<open>int.enabled = v\<close>: on an entry it updates the table, on the prototype and on a
  function it creates or updates the property there, on a boolean it does nothing.
\<close>

definition assign_enabled :: "string \<Rightarrow> netif_ref \<Rightarrow> bool \<Rightarrow> state \<Rightarrow> state" where
  "assign_enabled name r v s =
     (case r of
        OwnEntry e \<Rightarrow> s\<lparr>netif := AList.update name (e\<lparr>enabled := v\<rparr>) (netif s)\<rparr>
      | ProtoObject \<Rightarrow> s\<lparr>proto_enabled := Some v\<rparr>
      | BuiltinFn f \<Rightarrow> s\<lparr>builtin_enabled := AList.update f v (builtin_enabled s)\<rparr>
      | InheritedTrue \<Rightarrow> s)"

definition handleNetif :: "conn \<Rightarrow> netif_msg \<Rightarrow> state \<Rightarrow> state" where
  "handleNetif c msg s =
     (case netif_lookup s (m_name msg) of
        None \<Rightarrow> s
      | Some intf \<Rightarrow>
          if ref_ip intf \<noteq> m_ip msg then s
          else
            let s1 = (case m_enabled msg of
                        None \<Rightarrow> s
                      | Some en \<Rightarrow>
                          if \<not> en \<and> ref_enabled s intf \<and> countActiveNetif s = 1
                          then snd (notificationSend (Some c) ''netif_disable_all'' ''error''
                                      ''Can't disable all networks'' 10 False True s)
                          else
                            let s2 = assign_enabled (m_name msg) intf en s
                            in if isStreaming s2 then updateSrtlaIps s2 else s2)
            in conn_send c (buildMsg ''netif'' (netif_json (netif s1)) JUndefined) s1)"

section \<open>Session and authentication\<close>

text \<open>
  A field assignment on a connection object is seen through every reference to the object:
  \<^verbatim>\<open>wss.clients\<close> and \<^verbatim>\<open>remoteWs\<close>. The handlers below receive the connection by
  value, return it when they assign to it, and write it back to the store.
\<close>

definition store_conn :: "conn \<Rightarrow> state \<Rightarrow> state" where
  "store_conn c s =
     s\<lparr>clients := map (\<lambda>x. if cid x = cid c then c else x) (clients s),
       remoteWs := map_option (\<lambda>r. if cid r = cid c then c else r) (remoteWs s)\<rparr>"

text \<open>
  The token stores are plain objects whose keys are the tokens, each with the value
  \<^verbatim>\<open>true\<close>; they are kept as the list of their keys. \<^verbatim>\<open>tokens[t]\<close> also finds what
  every plain object inherits from \<^verbatim>\<open>Object.prototype\<close>, and the test is whether the
  value found is truthy.
\<close>

definition token_lookup :: "state \<Rightarrow> string list \<Rightarrow> string \<Rightarrow> bool" where
  "token_lookup s tokens t = (t \<in> set tokens \<or> inherited_truthy s t)"

definition AUTH_TOKENS_FILE :: string where
  "AUTH_TOKENS_FILE = ''auth_tokens.json''"

definition savePersistentTokens :: "state \<Rightarrow> state" where
  "savePersistentTokens s =
     fs_writeFileSync AUTH_TOKENS_FILE
       (Doc (JSON_stringify (JObj (map (\<lambda>t. (t, JBool True)) (persistentTokens s))))) s"

definition add_token :: "string \<Rightarrow> string list \<Rightarrow> string list" where
  "add_token t tokens = (if t \<in> set tokens then tokens else tokens @ [t])"

text \<open>
  \<^verbatim>\<open>genAuthToken\<close>; \<open>token\<close> is the text of the 32 random bytes that the call draws.
\<close>

definition genAuthToken :: "string \<Rightarrow> bool \<Rightarrow> state \<Rightarrow> string \<times> state" where
  "genAuthToken token isPersistent s =
     (if isPersistent
      then (token, savePersistentTokens (s\<lparr>persistentTokens := add_token token (persistentTokens s)\<rparr>))
      else (token, s\<lparr>tempTokens := add_token token (tempTokens s)\<rparr>))"

definition sendInitialStatus :: "conn \<Rightarrow> state \<Rightarrow> state" where
  "sendInitialStatus c s =
     (let s1 = conn_send c (buildMsg ''config'' (JObj (config s)) JUndefined) s;
          s2 = conn_send c (buildMsg ''pipelines'' (getPipelineList s1) JUndefined) s1;
          s3 = sendStatus c s2;
          s4 = conn_send c (buildMsg ''netif'' (netif_json (netif s3)) JUndefined) s3;
          s5 = conn_send c (buildMsg ''sensors'' (sensors s4) JUndefined) s4;
          s6 = conn_send c (buildMsg ''revisions'' (revisions s5) JUndefined) s5
      in notificationSendPersistent c s6)"

definition connAuth :: "conn \<Rightarrow> string option \<Rightarrow> state \<Rightarrow> conn \<times> state" where
  "connAuth c sendToken s =
     (let c1 = c\<lparr>isAuthed := True\<rparr>;
          s1 = store_conn c1 s;
          result = JObj ((''success'', JBool True)
                         # (case sendToken of None \<Rightarrow> []
                            | Some t \<Rightarrow> [(''auth_token'', JStr t)]));
          s2 = conn_send c1 (buildMsg ''auth'' result JUndefined) s1
      in (c1, sendInitialStatus c1 s2))"

text \<open>
  An \<^verbatim>\<open>auth\<close> message: the password and the token when they are strings, and whether
  \<^verbatim>\<open>persistent_token\<close> is truthy.
\<close>

record auth_msg =
  a_password :: "string option"
  a_token :: "string option"
  a_persistent_token :: bool

text \<open>
  \<^verbatim>\<open>tryAuth\<close>. \<open>compare\<close> is the verdict of \<^verbatim>\<open>bcrypt.compare\<close> on a password and the
  stored hash, \<open>fresh\<close> the token drawn on success; the callback of the comparison runs on
  the state of the call.
\<close>

definition tryAuth ::
  "(string \<Rightarrow> json \<Rightarrow> bool) \<Rightarrow> string \<Rightarrow> conn \<Rightarrow> auth_msg \<Rightarrow> state \<Rightarrow> conn \<times> state" where
  "tryAuth compare fresh c msg s =
     (if \<not> truthy (obj_get (config s) ''password_hash'')
      then (c, conn_send c (buildMsg ''auth'' (JObj [(''success'', JBool False)]) JUndefined) s)
      else
        case a_password msg of
          Some password \<Rightarrow>
            if compare password (obj_get (config s) ''password_hash'')
            then
              (case genAuthToken fresh (a_persistent_token msg) s of
                 (token, s1) \<Rightarrow>
                   let c1 = c\<lparr>authToken := Some token\<rparr>
                   in connAuth c1 (Some token) (store_conn c1 s1))
            else (c, snd (notificationSend (Some c) ''auth'' ''error'' ''Invalid password''
                            0 False True s))
        | None \<Rightarrow>
            (case a_token msg of
               Some token \<Rightarrow>
                 if token_lookup s (tempTokens s) token \<or> token_lookup s (persistentTokens s) token
                 then
                   (case connAuth c None s of
                      (c1, s1) \<Rightarrow>
                        let c2 = c1\<lparr>authToken := Some token\<rparr> in (c2, store_conn c2 s1))
                 else (c, conn_send c
                            (buildMsg ''auth'' (JObj [(''success'', JBool False)]) JUndefined) s)
             | None \<Rightarrow> (c, s)))"

text \<open>
  The first loop of \<^verbatim>\<open>handleMessage\<close>: an \<^verbatim>\<open>auth\<close> message is handed to \<^verbatim>\<open>tryAuth\<close>
  only when it did not arrive through the remote tunnel.
\<close>

definition handleMessage_auth ::
  "(string \<Rightarrow> json \<Rightarrow> bool) \<Rightarrow> string \<Rightarrow> bool \<Rightarrow> conn \<Rightarrow> auth_msg \<Rightarrow> state \<Rightarrow> conn \<times> state" where
  "handleMessage_auth compare fresh isRemote c msg s =
     (if \<not> isRemote then tryAuth compare fresh c msg s else (c, s))"

text \<open>
  \<^verbatim>\<open>setPassword\<close>; \<open>hashSync\<close> stands for \<^verbatim>\<open>bcrypt.hashSync\<close>, which is given the
  password and the number of rounds.
\<close>

definition setPassword ::
  "(string \<Rightarrow> nat \<Rightarrow> string) \<Rightarrow> conn \<Rightarrow> string \<Rightarrow> bool \<Rightarrow> state \<Rightarrow> state" where
  "setPassword hashSync c password isRemote s =
     (if isAuthed c \<or> (\<not> isRemote \<and> \<not> truthy (obj_get (config s) ''password_hash''))
      then
        let minLen = 8
        in if int (length password) < minLen
           then snd (notificationSend (Some c) ''belaui_pass_length'' ''error''
                       (''Minimum password length: '' @ string_of_int minLen @ '' characters'')
                       10 False True s)
           else
             let cfg1 = obj_set (config s) ''password_hash''
                          (JStr (hashSync password BCRYPT_ROUNDS));
                 cfg2 = obj_delete cfg1 ''password''
             in saveConfig (s\<lparr>config := cfg2\<rparr>)
      else s)"

section \<open>SSH control\<close>

text \<open>
  \<^verbatim>\<open>resetSshPassword\<close> with the outcome of its two shell commands: whether \<^verbatim>\<open>passwd\<close>
  failed, the password it drew, and the line of \<^verbatim>\<open>/etc/shadow\<close> read afterwards (\<open>None\<close>
  when that read fails, in which case the callback is never called).
\<close>

definition resetSshPassword ::
  "conn \<Rightarrow> bool \<Rightarrow> string \<Rightarrow> string option \<Rightarrow> state \<Rightarrow> state" where
  "resetSshPassword c passwd_failed password shadow s =
     (case ssh_user (setup_doc s) of
        None \<Rightarrow> s
      | Some user \<Rightarrow>
          if passwd_failed
          then snd (notificationSend (Some c) ''ssh_pass_reset'' ''error''
                      (''Failed to reset the SSH password for '' @ user) 10 False True s)
          else
            (case shadow of
               None \<Rightarrow> s
             | Some hash \<Rightarrow>
                 let s1 = s\<lparr>config := obj_set (config s) ''ssh_pass'' (JStr password),
                            sshPasswordHash := JStr hash\<rparr>;
                     s2 = saveConfig s1
                 in broadcastMsg ''config'' (JObj (config s2)) 0 s2))"

section \<open>Remote tunnel\<close>

definition remoteEndpoint :: string where
  "remoteEndpoint = ''wss://remote.belabox.net/ws/remote''"

definition remoteTimeout :: int where
  "remoteTimeout = 5000"

definition remoteConnectTimeout :: int where
  "remoteConnectTimeout = 10000"

text \<open>The body of the loop of \<^verbatim>\<open>handleRemote\<close> for one key of the message.\<close>

definition handleRemote_type :: "string \<times> json \<Rightarrow> conn \<times> state \<Rightarrow> conn \<times> state" where
  "handleRemote_type kv cs =
     (case cs of (c, s) \<Rightarrow>
        if fst kv = ''auth/encoder''
        then
          (if snd kv = JBool True
           then
             let c1 = c\<lparr>isAuthed := True\<rparr>;
                 s1 = store_conn c1 s;
                 s2 = sendInitialStatus c1 s1;
                 s3 = snd (broadcastMsgLocal ''status'' (JObj [(''remote'', JBool True)])
                             (getms s2 - ACTIVE_TO) None s2)
             in (c1, s3)
           else
             let s1 = snd (broadcastMsgLocal ''status''
                             (JObj [(''remote'', JObj [(''error'', JStr ''key'')])])
                             (getms s - ACTIVE_TO) None s);
                 s2 = s1\<lparr>remoteStatusHandled := True\<rparr>
             in (c, emit (Terminate (cid c)) s2))
        else cs)"

definition handleRemote :: "conn \<Rightarrow> obj \<Rightarrow> state \<Rightarrow> conn \<times> state" where
  "handleRemote c msg s = fold handleRemote_type msg (c, s)"

text \<open>
  \<^verbatim>\<open>remoteClose\<close>, the handler of the tunnel's close event: the reconnect timer, the
  tunnel variable cleared, and the network error unless the status was already handled.
\<close>

definition remoteClose :: "conn \<Rightarrow> state \<Rightarrow> state" where
  "remoteClose c s =
     (let s1 = emit (SetTimeout ''remoteConnect'' 1000) (s\<lparr>remoteConnectTimer := True\<rparr>);
          s2 = s1\<lparr>remoteWs := None\<rparr>
      in if \<not> remoteStatusHandled s2
         then snd (broadcastMsgLocal ''status''
                     (JObj [(''remote'', JObj [(''error'', JStr ''network'')])])
                     (getms s2 - ACTIVE_TO) None s2)
         else s2)"

text \<open>
  \<^verbatim>\<open>getRemoteBindAddr\<close>: round robin over the interface table. \<open>prevRemoteBindAddr\<close> is
  \<open>None\<close> for the initial \<open>-1\<close>.
\<close>

definition getRemoteBindAddr :: "state \<Rightarrow> string option \<times> state" where
  "getRemoteBindAddr s =
     (let netList = map fst (netif s)
      in if length netList < 1 then (None, s\<lparr>prevRemoteBindAddr := None\<rparr>)
         else
           let n = (case prevRemoteBindAddr s of None \<Rightarrow> 0 | Some p \<Rightarrow> p + 1);
               n1 = (if n \<ge> length netList then 0 else n)
           in (map_option ip (map_of (netif s) (netList ! n1)),
               s\<lparr>prevRemoteBindAddr := Some n1\<rparr>))"

text \<open>
  \<^verbatim>\<open>remoteConnect\<close>; \<open>wsid\<close> is the identity of the socket object it creates.
\<close>

definition remoteConnect :: "nat \<Rightarrow> state \<Rightarrow> state" where
  "remoteConnect wsid s =
     (let s1 = s\<lparr>remoteConnectTimer := False\<rparr>
      in if truthy (obj_get (config s1) ''remote_key'')
         then
           (case getRemoteBindAddr s1 of
              (bindIp, s2) \<Rightarrow>
                if bindIp = None \<or> bindIp = Some []
                then emit (SetTimeout ''remoteConnect'' 1000) (s2\<lparr>remoteConnectTimer := True\<rparr>)
                else
                  emit (Connect remoteEndpoint (case bindIp of Some a \<Rightarrow> a | None \<Rightarrow> []))
                    (s2\<lparr>remoteStatusHandled := False,
                        remoteWs := Some \<lparr>cid = wsid, isAuthed = False,
                                           lastActive = getms s2 + remoteConnectTimeout
                                                        - remoteTimeout,
                                           senderId = JUndefined, authToken = None\<rparr>\<rparr>))
         else s1)"

definition setRemoteKey :: "json \<Rightarrow> nat \<Rightarrow> state \<Rightarrow> state" where
  "setRemoteKey key wsid s =
     (let s1 = saveConfig (s\<lparr>config := obj_set (config s) ''remote_key'' key\<rparr>);
          s2 = (case remoteWs s1 of
                  Some r \<Rightarrow> emit (Terminate (cid r)) (s1\<lparr>remoteStatusHandled := True\<rparr>)
                | None \<Rightarrow> s1);
          s3 = remoteConnect wsid s2
      in broadcastMsg ''config'' (JObj (config s3)) 0 s3)"

section \<open>Loading the config file\<close>

text \<open>
  What the daemon does with the value parsed from \<^verbatim>\<open>config.json\<close> when it starts. The
  value is printed as parsed. If it is an object, the SSH password hash moves from it to a
  variable of its own. If it is \<^verbatim>\<open>null\<close>, reading the property raises, and the handler
  of the \<^verbatim>\<open>try\<close> leaves an empty config. An array, a number, a string or a boolean stays
  as the config: the daemon then runs with a config that is not a plain object, which the
  state above cannot hold, and the result is \<open>None\<close>.
\<close>

definition load_parsed :: "json \<Rightarrow> state \<Rightarrow> state option" where
  "load_parsed v s =
     (let s1 = emit (ConsoleLog v) s
      in case v of
           JObj kvs \<Rightarrow>
             Some (s1\<lparr>sshPasswordHash := obj_get kvs ''ssh_pass_hash'',
                      config := obj_delete kvs ''ssh_pass_hash''\<rparr>)
         | JNull \<Rightarrow> Some (s1\<lparr>config := []\<rparr>)
         | JUndefined \<Rightarrow> Some (s1\<lparr>config := []\<rparr>)
         | JBool b \<Rightarrow> None
         | JNum n \<Rightarrow> None
         | JStr x \<Rightarrow> None
         | JArr xs \<Rightarrow> None)"

text \<open>
  The start of the daemon. A missing file makes the read raise, a text that \<open>parse\<close>
  (\<^verbatim>\<open>JSON.parse\<close>) refuses makes the parse raise; both leave an empty config. The message
  printed by the handler is not among the effects.
\<close>

definition loadConfig :: "(string \<Rightarrow> json option) \<Rightarrow> state \<Rightarrow> state option" where
  "loadConfig parse s =
     (case read_file s CONFIG_FILE of
        None \<Rightarrow> Some (s\<lparr>config := []\<rparr>)
      | Some (Doc v) \<Rightarrow> load_parsed v s
      | Some (Text t) \<Rightarrow>
          (case parse t of
             None \<Rightarrow> Some (s\<lparr>config := []\<rparr>)
           | Some v \<Rightarrow> load_parsed v s))"

section \<open>The daemon as a sequence of handled events\<close>

text \<open>The \<^verbatim>\<open>bitrate\<close> case of \<^verbatim>\<open>handleMessage\<close>.\<close>

definition handleMessage_bitrate ::
  "(json \<Rightarrow> jsnum) \<Rightarrow> conn \<Rightarrow> params \<Rightarrow> state \<Rightarrow> state" where
  "handleMessage_bitrate rt c ps s =
     (if isStreaming s
      then (case setBitrate rt ps s of
              (br, s1) \<Rightarrow>
                if nullish br then s1
                else broadcastMsgExcept c ''bitrate'' (JObj [(''max_br'', br)]) s1)
      else s)"

text \<open>
  Everything that runs on the event loop and is modelled above, with the inputs each
  handler takes from outside: client requests, the poll, notifications raised by other
  components, the tunnel's events, the passing of time and the coming and going of local
  clients. The handlers are applied whether or not the requesting connection is
  authenticated; what is proved of all sequences below holds of the sequences that the
  authentication check lets through.
\<close>

datatype request =
    Start "json \<Rightarrow> jsnum" "string \<Rightarrow> bool" conn params
  | Stop
  | Bitrate "json \<Rightarrow> jsnum" conn params
  | Netif conn netif_msg
  | Password "string \<Rightarrow> nat \<Rightarrow> string" conn string bool
  | RemoteKey json nat
  | Auth "string \<Rightarrow> json \<Rightarrow> bool" string bool conn auth_msg
  | ResetSsh conn bool string "string option"
  | Poll "ifconfig_block list option"
  | Notify "conn option" string string string int bool bool
  | NotifyRemove string
  | RemoteMsg conn obj
  | RemoteClose conn
  | RemoteConnect nat
  | Clock int
  | Clients "conn list"

fun step :: "request \<Rightarrow> state \<Rightarrow> state" where
  "step (Start rt dns c ps) s = start rt dns c ps s"
| "step Stop s = stop s"
| "step (Bitrate rt c ps) s = handleMessage_bitrate rt c ps s"
| "step (Netif c m) s = handleNetif c m s"
| "step (Password h c pw r) s = setPassword h c pw r s"
| "step (RemoteKey k w) s = setRemoteKey k w s"
| "step (Auth cmp fresh r c m) s = snd (handleMessage_auth cmp fresh r c m s)"
| "step (ResetSsh c failed pw shadow) s = resetSshPassword c failed pw shadow s"
| "step (Poll res) s = updateNetif res s"
| "step (Notify c n t m d p dm) s = snd (notificationSend c n t m d p dm s)"
| "step (NotifyRemove n) s = notificationRemove n s"
| "step (RemoteMsg c m) s = snd (handleRemote c m s)"
| "step (RemoteClose c) s = remoteClose c s"
| "step (RemoteConnect w) s = remoteConnect w s"
| "step (Clock t) s = s\<lparr>now := t\<rparr>"
| "step (Clients cs) s = s\<lparr>clients := cs\<rparr>"

definition run :: "request list \<Rightarrow> state \<Rightarrow> state" where
  "run rs s = fold step rs s"

text \<open>
  An event is clean of the key \<open>k\<close> when it is not a frame whose \<^verbatim>\<open>config\<close> member has
  that key and, if \<open>docs\<close> is set, not a write of a document with that key to the config
  file.
\<close>

fun ev_clean :: "bool \<Rightarrow> string \<Rightarrow> event \<Rightarrow> bool" where
  "ev_clean docs k (Send c f) = (k \<notin> set (doc_keys (doc_get f ''config'')))"
| "ev_clean docs k (WriteFile p (Doc d)) =
     (if docs \<and> p = CONFIG_FILE then k \<notin> set (doc_keys d) else True)"
| "ev_clean docs k e = True"

text \<open>
  The config object has no key \<open>k\<close>, and every event from position \<open>n\<close> of the trace on is
  clean of it.
\<close>

definition clean_since :: "nat \<Rightarrow> bool \<Rightarrow> string \<Rightarrow> state \<Rightarrow> bool" where
  "clean_since n docs k s =
     (k \<notin> set (obj_keys (config s)) \<and> n \<le> length (trace s)
      \<and> list_all (ev_clean docs k) (drop n (trace s)))"

text \<open>
  The two keys followed below: the operator's plaintext password (in memory, on the wire
  and on disk) and the SSH password hash (in memory and on the wire).
\<close>

definition tracked :: "bool \<Rightarrow> string \<Rightarrow> bool" where
  "tracked docs k = (k = ''password'' \<or> (k = ''ssh_pass_hash'' \<and> \<not> docs))"

section \<open>Notions used in the statements\<close>

text \<open>
  The events of one call: what the trace of the state after it adds to the trace of the
  state before it.
\<close>

definition effects_of :: "state \<Rightarrow> state \<Rightarrow> event list" where
  "effects_of s s' = drop (length (trace s)) (trace s')"

text \<open>The frame that refuses to disable the last enabled interface, as sent to \<open>c\<close>.\<close>

definition netif_disable_all_frame :: "conn \<Rightarrow> json" where
  "netif_disable_all_frame c =
     buildMsg ''notification''
       (JObj [(''show'', JArr [notification_json
                 \<lparr>n_name = ''netif_disable_all'', n_type = ''error'',
                  n_msg = ''Can't disable all networks'', is_dismissable = True,
                  is_persistent = False, duration = 10\<rparr>])])
       (senderId c)"

text \<open>
  What a poll promises for an entry \<open>e\<close> that it stores under the name \<open>n\<close>, given the
  previous table \<open>old\<close> and the blocks \<open>B\<close> it has read.
\<close>

definition entry_ok ::
  "(string \<times> netif_entry) list \<Rightarrow> ifconfig_block set \<Rightarrow> string \<Rightarrow> netif_entry \<Rightarrow> bool" where
  "entry_ok old B n e =
     ((case map_of old n of
         None \<Rightarrow> tp e = 0 \<and> enabled e
       | Some p \<Rightarrow> tp e = txb e - txb p \<and> enabled e = enabled p)
      \<and> (\<exists>b\<in>B. if_name b = n \<and> if_inet b = Some (ip e) \<and> if_txbytes b = Some (txb e)))"



definition token_msg :: "string \<Rightarrow> auth_msg" where
  "token_msg t = \<lparr>a_password = None, a_token = Some t, a_persistent_token = False\<rparr>"


text \<open>Whether \<^verbatim>\<open>setPassword\<close> lets the request through.\<close>

definition password_set_permitted :: "conn \<Rightarrow> bool \<Rightarrow> state \<Rightarrow> bool" where
  "password_set_permitted c isRemote s =
     (isAuthed c \<or> (\<not> truthy (obj_get (config s) ''password_hash'') \<and> \<not> isRemote))"

text \<open>
  The frames of one broadcast: one to every local client that receives it, and the mirror
  to the tunnel when the tunnel is authenticated.
\<close>

definition broadcast_events :: "json \<Rightarrow> int \<Rightarrow> state \<Rightarrow> event list" where
  "broadcast_events msg activeMin s =
     map (\<lambda>c. Send (cid c) msg) (filter (receives activeMin None) (clients s))
     @ (case remoteWs s of
          Some r \<Rightarrow> if isAuthed r then [Send (cid r) msg] else []
        | None \<Rightarrow> [])"

text \<open>The frame that shows one persistent notification.\<close>

definition persistent_frame :: "string \<Rightarrow> string \<Rightarrow> string \<Rightarrow> int \<Rightarrow> bool \<Rightarrow> json" where
  "persistent_frame name type msg dur isDismissable =
     buildMsg ''notification''
       (JObj [(''show'', JArr [notification_json
                 \<lparr>n_name = name, n_type = type, n_msg = msg, is_dismissable = isDismissable,
                  is_persistent = True, duration = dur\<rparr>])])
       JUndefined"

definition stored :: "state \<Rightarrow> string \<Rightarrow> pnotification option" where
  "stored s name = map_of (persistentNotifications s) name"





section \<open>Example states\<close>

text \<open>A streaming appliance with one wired uplink, one authenticated browser tab and no tunnel.\<close>

definition example_setup :: setup_json where
  "example_setup =
     \<lparr>bitrate_file = ''/tmp/belacoder_br'', ips_file = ''/tmp/srtla_ips'',
      belacoderExec = ''/usr/bin/belacoder'', srtlaSendExec = ''/usr/bin/srtla_send'',
      ssh_user = Some ''user''\<rparr>"

definition example_conn :: conn where
  "example_conn =
     \<lparr>cid = 1, isAuthed = True, lastActive = 99000, senderId = JUndefined, authToken = None\<rparr>"

definition example_state :: state where
  "example_state =
     \<lparr>setup_doc = example_setup,
      config = [(''password_hash'', JStr ''$2b$10$abcdefgh''), (''max_br'', JNum 4000)],
      sshPasswordHash = JUndefined,
      tempTokens = [],
      persistentTokens = [],
      netif = [(''eth0'', \<lparr>ip = ''192.168.1.10'', txb = 1000, tp = 0, enabled = True\<rparr>)],
      proto_enabled = None,
      builtin_enabled = [],
      isStreaming = True,
      softUpdateStatus = JNull,
      availableUpdates = JBool False,
      sshStatus = JUndefined,
      wifiStatus = JObj [],
      sensors = JObj [],
      revisions = JObj [(''belaUI'', JStr ''abc1234'')],
      pipelines = [(''p1'', ''generic/h264_camlink'',
                    ''/usr/share/belacoder/pipelines/generic/h264_camlink'')],
      persistentNotifications = [],
      remoteWs = None,
      remoteStatusHandled = False,
      remoteConnectTimer = False,
      prevRemoteBindAddr = None,
      clients = [example_conn],
      files = [],
      now = 100000,
      trace = []\<rparr>"

text \<open>The same appliance when it is idle, with a start request whose SRT latency is too low.\<close>

definition idle_state :: state where
  "idle_state = example_state\<lparr>isStreaming := False\<rparr>"

definition low_latency_params :: params where
  "low_latency_params =
     \<lparr>delay = Some 0, pipeline = Some ''p1'', max_br = JNum 5000, srt_latency = Some 50,
      srt_streamid = Some [], srtla_addr = Some ''1.2.3.4'', srtla_port = Some 5000\<rparr>"

text \<open>
  Two uplinks, the wireless one disabled by the operator; then the wired one is unplugged
  and the next poll finds the wireless one only.
\<close>

definition two_uplinks_state :: state where
  "two_uplinks_state =
     example_state
       \<lparr>netif := [(''eth0'', \<lparr>ip = ''192.168.1.10'', txb = 1000, tp = 0, enabled = True\<rparr>),
                  (''wlan0'', \<lparr>ip = ''10.0.0.7'', txb = 500, tp = 0, enabled = False\<rparr>)]\<rparr>"

definition wlan0_block :: ifconfig_block where
  "wlan0_block = \<lparr>if_name = ''wlan0'', if_inet = Some ''10.0.0.7'', if_txbytes = Some 800\<rparr>"

definition unplugged_state :: state where
  "unplugged_state = updateNetif (Some [wlan0_block]) two_uplinks_state"

definition disable_wlan0 :: netif_msg where
  "disable_wlan0 = \<lparr>m_name = ''wlan0'', m_ip = Some ''10.0.0.7'', m_enabled = Some False\<rparr>"

text \<open>The wired uplink after its byte counter has started again from zero.\<close>

definition eth0_reset_block :: ifconfig_block where
  "eth0_reset_block =
     \<lparr>if_name = ''eth0'', if_inet = Some ''192.168.1.10'', if_txbytes = Some 400\<rparr>"

text \<open>
  A browser tab that has not authenticated yet, and an appliance that has lost its config
  file but kept its file of persistent tokens, before the missing file is loaded and
  after.
\<close>

definition guest_conn :: conn where
  "guest_conn =
     \<lparr>cid = 2, isAuthed = False, lastActive = 99500, senderId = JUndefined, authToken = None\<rparr>"

definition first_run_state :: state where
  "first_run_state =
     example_state\<lparr>isStreaming := False, persistentTokens := [''dG9rZW4x''],
                   clients := [guest_conn]\<rparr>"

definition no_password_state :: state where
  "no_password_state = first_run_state\<lparr>config := []\<rparr>"

definition guest_state :: state where
  "guest_state = example_state\<lparr>tempTokens := [''dG9rZW4x''], clients := [guest_conn]\<rparr>"

text \<open>
  A runtime in which no string, array or object has a numeric reading, as is the case of
  the string \<^verbatim>\<open>fast\<close> used below.
\<close>

definition not_a_number :: "json \<Rightarrow> jsnum" where
  "not_a_number v = NaN"

text \<open>A stand-in for the hash function in examples.\<close>

definition example_hash :: "string \<Rightarrow> nat \<Rightarrow> string" where
  "example_hash password rounds = ''$2b$'' @ string_of_nat rounds @ ''$'' @ rev password"

text \<open>
  The encoder keeps failing: the same persistent notification is broadcast at 100.0 s,
  100.5 s and 101.0 s of the clock.
\<close>

definition first_send :: "bool option \<times> state" where
  "first_send =
     notificationSend None ''belacoder'' ''error'' ''belacoder stopped'' 0 True True
       (example_state\<lparr>now := 100000\<rparr>)"

definition second_send :: "bool option \<times> state" where
  "second_send =
     notificationSend None ''belacoder'' ''error'' ''belacoder stopped'' 0 True True
       ((snd first_send)\<lparr>now := 100500\<rparr>)"

definition third_send :: "bool option \<times> state" where
  "third_send =
     notificationSend None ''belacoder'' ''error'' ''belacoder stopped'' 0 True True
       ((snd second_send)\<lparr>now := 101000\<rparr>)"



text \<open>
  An appliance whose config file holds the SSH password hash, before the file is loaded
  and after; and one whose config file was written by hand with a plaintext password in it.
\<close>

definition stored_hash_state :: state where
  "stored_hash_state =
     example_state
       \<lparr>files := [(''config.json'',
                   Doc (JObj [(''password_hash'', JStr ''$2b$10$abcdefgh''),
                              (''ssh_pass_hash'', JStr ''user:$6$salt$hash:19000::::::'')]))]\<rparr>"

definition loaded_hash_state :: state where
  "loaded_hash_state =
     stored_hash_state
       \<lparr>sshPasswordHash := JStr ''user:$6$salt$hash:19000::::::'',
        config := [(''password_hash'', JStr ''$2b$10$abcdefgh'')],
        trace := [ConsoleLog (JObj [(''password_hash'', JStr ''$2b$10$abcdefgh''),
                                    (''ssh_pass_hash'', JStr ''user:$6$salt$hash:19000::::::'')])]\<rparr>"

definition ssh_reset :: request where
  "ssh_reset = ResetSsh example_conn False ''n3wp4ssw0rd'' (Some ''user:$6$salt$new:19001::::::'')"

definition legacy_state :: state where
  "legacy_state = no_password_state\<lparr>config := [(''password'', JStr ''oldsecret'')]\<rparr>"

section \<open>Properties\<close>

subsection \<open>Objects and documents\<close>

lemma obj_get_set_same [simp]: "obj_get (obj_set ob k v) k = v"
  by (simp add: obj_get_def obj_set_def update_conv')

lemma obj_get_set_other [simp]: "k' \<noteq> k \<Longrightarrow> obj_get (obj_set ob k v) k' = obj_get ob k'"
  by (simp add: obj_get_def obj_set_def update_conv')

lemma obj_get_delete_other [simp]:
  "k' \<noteq> k \<Longrightarrow> obj_get (obj_delete ob k) k' = obj_get ob k'"
  by (simp add: obj_get_def obj_delete_def delete_conv')

lemma obj_get_delete_same [simp]: "obj_get (obj_delete ob k) k = JUndefined"
  by (simp add: obj_get_def obj_delete_def delete_conv')

lemma map_of_stringify_Some:
  "map_of kvs k = Some v \<Longrightarrow> f v \<noteq> JUndefined \<Longrightarrow>
   map_of (filter defined_member (map (map_prod id f) kvs)) k = Some (f v)"
  by (induction kvs) (auto simp: defined_member_def)

lemma map_of_stringify_None:
  "map_of kvs k = None \<Longrightarrow>
   map_of (filter defined_member (map (map_prod id f) kvs)) k = None"
  by (induction kvs) (auto simp: defined_member_def split: if_splits)

lemma doc_get_stringify_num:
  "obj_get kvs k = JNum n \<Longrightarrow> doc_get (JSON_stringify (JObj kvs)) k = JNum n"
  using map_of_stringify_Some[of kvs k "JNum n" JSON_stringify]
  by (auto simp: obj_get_def split: option.splits)

lemma min_bitrate_text: "string_of_int (minBr * 1000) = ''300000''"
  by (simp add: string_of_int_def minBr_def string_of_nat.simps digit_char_def)

subsection \<open>Bitrate changes\<close>

lemma to_number_num [simp]: "to_number rt (JNum n) = Num n"
  by (simp add: to_number_def)

lemma num_less_num [simp]: "num_less (Num a) (Num b) = (a < b)"
  by (simp add: num_less_def)

lemma setBitrate_missing:
  "nullish (max_br ps) \<Longrightarrow> setBitrate rt ps s = (JNull, s)"
  by (simp add: setBitrate_def)

text \<open>
  What \<^verbatim>\<open>setBitrate({max_br: b})\<close> does when \<open>b\<close> is a number. Outside 300..12000 it
  returns \<^verbatim>\<open>null\<close> and leaves the whole state (config, files, effects) as it was.
  Otherwise it returns \<open>b\<close>, \<open>config.max_br\<close> is \<open>b\<close>, and its effects are, in this order
  and nothing else: the config document \<open>c\<close> (carrying \<open>max_br = b\<close>) written to the config
  file, the bitrate file rewritten as the line \<open>300000\<close> followed by the line \<open>b * 1000\<close>,
  and \<^verbatim>\<open>killall -HUP belacoder\<close>. The bitrate file then reads back as those two lines.
\<close>

lemma setBitrate_number:
  assumes "max_br ps = JNum b"
  shows "if b < 300 \<or> 12000 < b then setBitrate rt ps s = (JNull, s)
     else (\<exists>s' c. setBitrate rt ps s = (JNum b, s')
            \<and> obj_get (config s') ''max_br'' = JNum b
            \<and> doc_get c ''max_br'' = JNum b
            \<and> trace s' = trace s @
                  [WriteFile CONFIG_FILE (Doc c),
                   WriteFile (bitrate_file (setup_doc s))
                     (Text (''300000'' @ newline @ string_of_int (b * 1000) @ newline)),
                   Spawn ''killall'' [JStr ''-HUP'', JStr ''belacoder'']]
            \<and> read_file s' (bitrate_file (setup_doc s)) =
                  Some (Text (''300000'' @ newline @ string_of_int (b * 1000) @ newline)))"
  using assms
  by (auto simp: setBitrate_def nullish_def minBr_def saveConfig_def fs_writeFileSync_def
        emit_def spawnSync_def Let_def read_file_def update_conv' doc_get_stringify_num
        num_times_def string_of_num_def
        min_bitrate_text[unfolded minBr_def, simplified]
      simp del: JSON_stringify.simps)

lemmas setBitrate_eval =
  setBitrate_def nullish_def to_number_def num_less_def num_times_def string_of_num_def
  not_a_number_def minBr_def saveConfig_def fs_writeFileSync_def emit_def spawnSync_def
  Let_def obj_set_def obj_get_def obj_delete_def example_state_def example_setup_def
  string_of_int_def string_of_nat.simps digit_char_def defined_member_def CONFIG_FILE_def

text \<open>
  Claim C2 asks that a value outside 300..12000 is refused with \<^verbatim>\<open>null\<close> and changes
  neither the config nor the bitrate file. The two comparisons that guard the refusal
  convert the value to a number, and both are false of a value with no numeric reading.
  The bitrate \<^verbatim>\<open>"fast"\<close> is therefore accepted on the example appliance: it is returned,
  it replaces 4000 in the config and in \<^verbatim>\<open>config.json\<close>, the bitrate file gets the lines
  \<open>300000\<close> and \<open>NaN\<close>, and the encoder is signalled.
\<close>

theorem setBitrate_accepts_text:
  "setBitrate not_a_number
     \<lparr>delay = None, pipeline = None, max_br = JStr ''fast'', srt_latency = None,
      srt_streamid = None, srtla_addr = None, srtla_port = None\<rparr> example_state =
   (JStr ''fast'',
    example_state
      \<lparr>config := [(''password_hash'', JStr ''$2b$10$abcdefgh''), (''max_br'', JStr ''fast'')],
       files :=
         [(''config.json'',
           Doc (JObj [(''password_hash'', JStr ''$2b$10$abcdefgh''),
                      (''max_br'', JStr ''fast'')])),
          (''/tmp/belacoder_br'', Text (''300000'' @ newline @ ''NaN'' @ newline))],
       trace :=
         [WriteFile ''config.json''
            (Doc (JObj [(''password_hash'', JStr ''$2b$10$abcdefgh''),
                        (''max_br'', JStr ''fast'')])),
          WriteFile ''/tmp/belacoder_br'' (Text (''300000'' @ newline @ ''NaN'' @ newline)),
          Spawn ''killall'' [JStr ''-HUP'', JStr ''belacoder'']]\<rparr>)"
  by (simp add: setBitrate_eval)

subsection \<open>Messages\<close>

lemma fold_send:
  "fold (\<lambda>c. if P c then conn_send c msg else id) cs s =
     s\<lparr>trace := trace s @ map (\<lambda>c. Send (cid c) msg) (filter P cs)\<rparr>"
  by (induction cs arbitrary: s) (auto simp: conn_send_def emit_def)

lemma broadcastMsgLocal_eq:
  "broadcastMsgLocal type data am ex s =
     (buildMsg type data JUndefined,
      s\<lparr>trace := trace s @ map (\<lambda>c. Send (cid c) (buildMsg type data JUndefined))
                             (filter (receives am ex) (clients s))\<rparr>)"
  by (simp add: broadcastMsgLocal_def Let_def fold_send)

subsection \<open>A start request that fails after the bitrate check\<close>

lemmas start_eval =
  start_def idle_state_def example_state_def low_latency_params_def isUpdating_def
  updateConfig_def searchPipelines_def setBitrate_def nullish_def to_number_def num_less_def
  num_times_def string_of_num_def minBr_def saveConfig_def
  fs_writeFileSync_def emit_def spawnSync_def Let_def startError_def notificationSend_def
  conn_send_def buildMsg_def obj_set_def obj_get_def obj_delete_def example_conn_def
  example_setup_def string_of_int_def string_of_nat.simps digit_char_def
  notification_json_def defined_member_def null_if_undefined_def CONFIG_FILE_def newline_def

lemma start_low_latency_result:
  "start rt (\<lambda>a. True) example_conn low_latency_params idle_state =
     idle_state
       \<lparr>config := [(''password_hash'', JStr ''$2b$10$abcdefgh''), (''max_br'', JNum 5000)],
        files :=
          [(''config.json'',
            Doc (JObj [(''password_hash'', JStr ''$2b$10$abcdefgh''), (''max_br'', JNum 5000)])),
           (''/tmp/belacoder_br'', Text (''300000'' @ newline @ ''5000000'' @ newline))],
        trace :=
          [WriteFile ''config.json''
             (Doc (JObj [(''password_hash'', JStr ''$2b$10$abcdefgh''),
                         (''max_br'', JNum 5000)])),
           WriteFile ''/tmp/belacoder_br'' (Text (''300000'' @ newline @ ''5000000'' @ newline)),
           Spawn ''killall'' [JStr ''-HUP'', JStr ''belacoder''],
           Send 1 (JObj [(''notification'',
                    JObj [(''show'',
                      JArr [JObj [(''name'', JStr ''start_error''), (''type'', JStr ''error''),
                                  (''msg'', JStr ''invalid SRT latency 50 ms''),
                                  (''is_dismissable'', JBool True),
                                  (''is_persistent'', JBool False),
                                  (''duration'', JNum 10)]])])]),
           Send 1 (JObj [(''status'', JObj [(''is_streaming'', JBool False)])])]\<rparr>"
  by (simp add: start_eval)

text \<open>
  Claim C1 asks that a \<^verbatim>\<open>start\<close> request which fails validation leaves the config, the
  bitrate file and the children alone. The request below passes the delay, pipeline and
  bitrate checks and fails the SRT latency check (50 ms). The bitrate check is the call of
  \<^verbatim>\<open>setBitrate\<close>, so by the time the latency is rejected the idle appliance has
  \<open>max_br = 5000\<close> in its config (it was 4000) and in \<^verbatim>\<open>config.json\<close>, a rewritten
  bitrate file, and has run \<^verbatim>\<open>killall -HUP belacoder\<close>; the \<open>start_error\<close> notification
  and the status reply follow. The streaming flag stays off.
\<close>

theorem start_low_latency_side_effects:
  "obj_get (config idle_state) ''max_br'' = JNum 4000
   \<and> files idle_state = []
   \<and> trace idle_state = []
   \<and> \<not> isStreaming idle_state
   \<and> obj_get (config (start rt (\<lambda>a. True) example_conn low_latency_params idle_state)) ''max_br''
       = JNum 5000
   \<and> read_file (start rt (\<lambda>a. True) example_conn low_latency_params idle_state) CONFIG_FILE =
       Some (Doc (JObj [(''password_hash'', JStr ''$2b$10$abcdefgh''), (''max_br'', JNum 5000)]))
   \<and> read_file (start rt (\<lambda>a. True) example_conn low_latency_params idle_state)
         (bitrate_file (setup_doc idle_state)) =
       Some (Text (''300000'' @ newline @ ''5000000'' @ newline))
   \<and> Spawn ''killall'' [JStr ''-HUP'', JStr ''belacoder'']
       \<in> set (trace (start rt (\<lambda>a. True) example_conn low_latency_params idle_state))
   \<and> \<not> isStreaming (start rt (\<lambda>a. True) example_conn low_latency_params idle_state)"
  unfolding start_low_latency_result
  by (simp add: idle_state_def example_state_def example_setup_def obj_get_def read_file_def
      CONFIG_FILE_def)

subsection \<open>Disabling an interface\<close>

lemma enabled_count_update_enabled:
  "map_of tbl n = Some i \<Longrightarrow> enabled i \<Longrightarrow>
   Suc (enabled_count (AList.update n (i\<lparr>enabled := False\<rparr>) tbl)) = enabled_count tbl"
  by (induction tbl) (auto simp: enabled_count_def)

lemma netif_frame_is_no_notification:
  "buildMsg ''netif'' (netif_json tbl) JUndefined \<noteq> netif_disable_all_frame c"
  by (simp add: buildMsg_def netif_disable_all_frame_def obj_set_def netif_json_def
      defined_member_def)

lemma netif_lookup_own [simp]:
  "map_of (netif s) name = Some intf \<Longrightarrow> netif_lookup s name = Some (OwnEntry intf)"
  by (simp add: netif_lookup_def)

lemma netif_lookup_not_own:
  "map_of (netif s) name = None \<Longrightarrow>
   (case netif_lookup s name of None \<Rightarrow> True | Some r \<Rightarrow> ref_ip r = None)"
  by (simp add: netif_lookup_def ref_ip_def)

lemma handleNetif_not_own:
  assumes "map_of (netif s) name = None"
  shows "handleNetif c \<lparr>m_name = name, m_ip = Some addr, m_enabled = en\<rparr> s = s"
  using netif_lookup_not_own[OF assms]
  by (cases "netif_lookup s name") (simp_all add: handleNetif_def)

text \<open>
  Claim C3, as amended. Take \<^verbatim>\<open>setEnabled(name, ip, false)\<close> with the address given, on
  a table \<open>netif s\<close>, while \<^verbatim>\<open>Object.prototype\<close> carries no \<^verbatim>\<open>enabled\<close> property that is
  \<^verbatim>\<open>true\<close>. The request changes nothing and sends nothing unless the table has an entry
  for the name whose address is the one given. When it has, the request is rejected (the
  \<open>netif_disable_all\<close> error notification, 10 s, goes to the requester and the table stays
  as it is) exactly when the entry is enabled and disabling it would leave no enabled
  interface; otherwise the entry's flag becomes false. The rejection is tied to the entry
  being enabled: a disable of an entry that is already disabled is accepted, also when no
  interface is left enabled.
\<close>

theorem handleNetif_disable:
  fixes s c name addr
  defines "s' \<equiv> handleNetif c \<lparr>m_name = name, m_ip = Some addr, m_enabled = Some False\<rparr> s"
  assumes unpolluted: "proto_enabled s \<noteq> Some True"
  shows "(case map_of (netif s) name of
      None \<Rightarrow> s' = s
    | Some intf \<Rightarrow>
        if ip intf \<noteq> addr then s' = s
        else
          ((Send (cid c) (netif_disable_all_frame c) \<in> set (effects_of s s'))
             = (enabled intf \<and>
                enabled_count (AList.update name (intf\<lparr>enabled := False\<rparr>) (netif s)) = 0))
          \<and> (if Send (cid c) (netif_disable_all_frame c) \<in> set (effects_of s s')
             then netif s' = netif s
             else netif s' = AList.update name (intf\<lparr>enabled := False\<rparr>) (netif s)
                  \<and> map_of (netif s') name = Some (intf\<lparr>enabled := False\<rparr>)))"
proof (cases "map_of (netif s) name")
  case None
  then show ?thesis by (simp add: s'_def handleNetif_not_own)
next
  case (Some intf)
  have cnt_eq: "countActiveNetif s = enabled_count (netif s)"
    using unpolluted by (simp add: countActiveNetif_def inherited_entry_def)
  show ?thesis
  proof (cases "ip intf = addr")
    case False
    with Some show ?thesis by (simp add: s'_def handleNetif_def ref_ip_def)
  next
    case True
    show ?thesis
    proof (cases "enabled intf \<and> countActiveNetif s = 1")
      case rej: True
      then have cnt:
        "enabled_count (AList.update name (intf\<lparr>enabled := False\<rparr>) (netif s)) = 0"
        using enabled_count_update_enabled[OF Some] by (simp add: cnt_eq)
      have "s' = s\<lparr>trace := trace s @ [Send (cid c) (netif_disable_all_frame c),
                     Send (cid c) (buildMsg ''netif'' (netif_json (netif s)) JUndefined)]\<rparr>"
        using Some True rej
        by (simp add: s'_def handleNetif_def ref_ip_def ref_enabled_def notificationSend_def
            Let_def conn_send_def emit_def netif_disable_all_frame_def)
      then show ?thesis using Some True rej cnt by (simp add: effects_of_def)
    next
      case acc: False
      have cnt: "\<not> (enabled intf \<and>
          enabled_count (AList.update name (intf\<lparr>enabled := False\<rparr>) (netif s)) = 0)"
        using acc enabled_count_update_enabled[OF Some] by (auto simp: cnt_eq)
      have "\<exists>es. effects_of s s' =
          es @ [Send (cid c) (buildMsg ''netif''
               (netif_json (AList.update name (intf\<lparr>enabled := False\<rparr>) (netif s)))
               JUndefined)]
          \<and> (\<forall>e\<in>set es. case e of Send a f \<Rightarrow> False | _ \<Rightarrow> True)"
        and nt: "netif s' = AList.update name (intf\<lparr>enabled := False\<rparr>) (netif s)"
        using Some True acc
        by (auto simp: s'_def handleNetif_def ref_ip_def ref_enabled_def assign_enabled_def
            Let_def conn_send_def emit_def effects_of_def
            updateSrtlaIps_def genSrtlaIpList_def spawnSync_def fs_writeFileSync_def)
      then obtain es where eff: "effects_of s s' =
          es @ [Send (cid c) (buildMsg ''netif''
               (netif_json (AList.update name (intf\<lparr>enabled := False\<rparr>) (netif s)))
               JUndefined)]"
        and es: "\<forall>e\<in>set es. case e of Send a f \<Rightarrow> False | _ \<Rightarrow> True"
        by blast
      have notin: "Send (cid c) (netif_disable_all_frame c) \<notin> set (effects_of s s')"
        unfolding eff using es
        by (auto simp: netif_frame_is_no_notification netif_frame_is_no_notification[symmetric])
      show ?thesis using Some True cnt notin nt by (simp add: update_conv')
    qed
  qed
qed

text \<open>
  The only enabled uplink of the example appliance cannot be disabled: the request is
  answered with the notification and the table is unchanged.
\<close>

theorem handleNetif_disable_witness:
  "Send 1 (netif_disable_all_frame example_conn)
     \<in> set (effects_of example_state
          (handleNetif example_conn
             \<lparr>m_name = ''eth0'', m_ip = Some ''192.168.1.10'', m_enabled = Some False\<rparr>
             example_state))
   \<and> netif (handleNetif example_conn
             \<lparr>m_name = ''eth0'', m_ip = Some ''192.168.1.10'', m_enabled = Some False\<rparr>
             example_state)
       = [(''eth0'', \<lparr>ip = ''192.168.1.10'', txb = 1000, tp = 0, enabled = True\<rparr>)]"
proof -
  have tbl: "netif example_state =
      [(''eth0'', \<lparr>ip = ''192.168.1.10'', txb = 1000, tp = 0, enabled = True\<rparr>)]"
    by (simp add: example_state_def)
  have c1: "cid example_conn = 1"
    by (simp add: example_conn_def)
  have un: "proto_enabled example_state \<noteq> Some True"
    by (simp add: example_state_def)
  show ?thesis
    using handleNetif_disable[where s = example_state and c = example_conn
        and name = "''eth0''" and addr = "''192.168.1.10''", OF un]
    by (simp add: tbl c1 enabled_count_def)
qed

text \<open>
  Claim C3 as stated fails on a table without an enabled interface. After the wired uplink
  is unplugged the table holds the disabled wireless one only; disabling that entry again
  leaves zero enabled interfaces, and the request is not rejected.
\<close>

theorem handleNetif_disable_counterexample:
  "netif unplugged_state =
     [(''wlan0'', \<lparr>ip = ''10.0.0.7'', txb = 800, tp = 300, enabled = False\<rparr>)]
   \<and> enabled_count
        (AList.update ''wlan0'' \<lparr>ip = ''10.0.0.7'', txb = 800, tp = 300, enabled = False\<rparr>
           (netif unplugged_state)) = 0
   \<and> Send 1 (netif_disable_all_frame example_conn)
        \<notin> set (effects_of unplugged_state
              (handleNetif example_conn disable_wlan0 unplugged_state))"
  by (simp add: unplugged_state_def two_uplinks_state_def example_state_def wlan0_block_def
      disable_wlan0_def updateNetif_def scan_interface_def excluded_name_def Let_def
      broadcastMsg_def broadcastMsgLocal_eq updateSrtlaIps_def genSrtlaIpList_def
      spawnSync_def fs_writeFileSync_def emit_def conn_send_def handleNetif_def
      netif_lookup_def ref_ip_def ref_enabled_def assign_enabled_def inherited_entry_def
      countActiveNetif_def enabled_count_def effects_of_def example_conn_def
      example_setup_def receives_def getms_def ACTIVE_TO_def
      netif_frame_is_no_notification netif_frame_is_no_notification[symmetric])

text \<open>
  The theorem above leaves out requests without an address and states in which
  \<^verbatim>\<open>Object.prototype.enabled\<close> is \<^verbatim>\<open>true\<close>. What the code does there is a defect. The
  table is a plain object, so the name \<^verbatim>\<open>__proto__\<close> finds the prototype, whose missing
  \<^verbatim>\<open>ip\<close> equals a missing or \<^verbatim>\<open>null\<close> address: the request assigns \<^verbatim>\<open>enabled\<close> on
  \<^verbatim>\<open>Object.prototype\<close>. From then on the count of enabled interfaces is one too high, and
  the only enabled interface can be disabled.
\<close>

lemma handleNetif_assigns_prototype:
  assumes "map_of (netif s) ''__proto__'' = None"
  shows "proto_enabled
           (handleNetif c \<lparr>m_name = ''__proto__'', m_ip = None, m_enabled = Some True\<rparr> s)
         = Some True
     \<and> netif (handleNetif c \<lparr>m_name = ''__proto__'', m_ip = None, m_enabled = Some True\<rparr> s)
         = netif s"
  using assms
  by (simp add: handleNetif_def netif_lookup_def ref_ip_def assign_enabled_def Let_def
      updateSrtlaIps_def genSrtlaIpList_def spawnSync_def fs_writeFileSync_def emit_def
      conn_send_def)

lemma handleNetif_last_uplink_disabled:
  assumes "proto_enabled s = Some True" and "map_of (netif s) ''enabled'' = None"
    and "map_of (netif s) name = Some intf" and "ip intf = addr" and "enabled intf"
    and "enabled_count (netif s) = 1"
  shows "netif (handleNetif c \<lparr>m_name = name, m_ip = Some addr, m_enabled = Some False\<rparr> s)
         = AList.update name (intf\<lparr>enabled := False\<rparr>) (netif s)
     \<and> enabled_count (AList.update name (intf\<lparr>enabled := False\<rparr>) (netif s)) = 0"
  using assms enabled_count_update_enabled[of "netif s" name intf]
  by (simp add: handleNetif_def ref_ip_def ref_enabled_def assign_enabled_def Let_def
      countActiveNetif_def inherited_entry_def
      updateSrtlaIps_def genSrtlaIpList_def spawnSync_def fs_writeFileSync_def emit_def
      conn_send_def)

lemma example_uplink_disabled:
  "enabled_count (netif example_state) = 1
   \<and> enabled_count
        (netif (handleNetif example_conn
                  \<lparr>m_name = ''eth0'', m_ip = Some ''192.168.1.10'', m_enabled = Some False\<rparr>
                  (handleNetif example_conn
                     \<lparr>m_name = ''__proto__'', m_ip = None, m_enabled = Some True\<rparr>
                     example_state))) = 0"
proof -
  let ?s = "handleNetif example_conn
              \<lparr>m_name = ''__proto__'', m_ip = None, m_enabled = Some True\<rparr> example_state"
  have tbl: "netif example_state =
      [(''eth0'', \<lparr>ip = ''192.168.1.10'', txb = 1000, tp = 0, enabled = True\<rparr>)]"
    by (simp add: example_state_def)
  have p: "proto_enabled ?s = Some True" and n: "netif ?s = netif example_state"
    using handleNetif_assigns_prototype[of example_state example_conn] by (simp_all add: tbl)
  have one: "enabled_count (netif example_state) = 1"
    by (simp add: tbl enabled_count_def)
  show ?thesis
    using handleNetif_last_uplink_disabled[of ?s "''eth0''"
        "\<lparr>ip = ''192.168.1.10'', txb = 1000, tp = 0, enabled = True\<rparr>" "''192.168.1.10''"
        example_conn] p one
    by (simp add: n tbl enabled_count_def)
qed

subsection \<open>Polling the interfaces\<close>

lemma scan_interface_inv:
  assumes "b \<in> B" and "\<forall>n e. map_of (snd acc) n = Some e \<longrightarrow> entry_ok old B n e"
  shows "\<forall>n e. map_of (snd (scan_interface old b acc)) n = Some e \<longrightarrow> entry_ok old B n e"
  using assms
  by (cases acc) (auto simp: scan_interface_def Let_def update_conv' entry_ok_def
      split: option.splits if_splits)

lemma fold_scan_inv:
  assumes "set bs \<subseteq> B" and "\<forall>n e. map_of (snd acc) n = Some e \<longrightarrow> entry_ok old B n e"
  shows "\<forall>n e. map_of (snd (fold (scan_interface old) bs acc)) n = Some e
           \<longrightarrow> entry_ok old B n e"
  using assms
proof (induction bs arbitrary: acc)
  case Nil
  then show ?case by simp
next
  case (Cons b bs)
  have "\<forall>n e. map_of (snd (scan_interface old b acc)) n = Some e \<longrightarrow> entry_ok old B n e"
    using scan_interface_inv[of b B acc old] Cons.prems by simp
  then show ?case using Cons.IH[of "scan_interface old b acc"] Cons.prems by simp
qed

lemma netif_broadcastMsg [simp]: "netif (broadcastMsg t d a s) = netif s"
  by (simp add: broadcastMsg_def broadcastMsgLocal_eq conn_send_def emit_def
      split: option.splits)

lemma netif_updateSrtlaIps [simp]: "netif (updateSrtlaIps s) = netif s"
  by (simp add: updateSrtlaIps_def genSrtlaIpList_def spawnSync_def fs_writeFileSync_def
      emit_def Let_def)

lemma netif_updateNetif:
  "netif (updateNetif (Some bs) s) = snd (fold (scan_interface (netif s)) bs (False, []))"
  by (simp add: updateNetif_def Let_def split: prod.splits)

text \<open>
  Claim C4, as amended. After a poll over the blocks \<open>bs\<close>, every entry \<open>e\<close> of the new
  table comes from a block of that name whose address and byte counter it stores. If the
  previous table had the interface, the reported throughput is the difference
  \<open>tx_now - tx_prev\<close> of the two counters (negative when the counter went down: nothing
  clamps it at 0) and the enabled flag is the previous one; an interface seen for the
  first time reports 0 and is enabled.
\<close>

theorem updateNetif_throughput:
  assumes "map_of (netif (updateNetif (Some bs) s)) n = Some e"
  shows "(case map_of (netif s) n of
            None \<Rightarrow> tp e = 0 \<and> enabled e
          | Some p \<Rightarrow> tp e = txb e - txb p \<and> enabled e = enabled p)
         \<and> (\<exists>b\<in>set bs. if_name b = n \<and> if_inet b = Some (ip e)
                \<and> if_txbytes b = Some (txb e))"
  using fold_scan_inv[of bs "set bs" "(False, [])" "netif s"] assms
  by (simp add: netif_updateNetif entry_ok_def)

lemmas netif_eval =
  updateNetif_def scan_interface_def excluded_name_def Let_def broadcastMsg_def
  broadcastMsgLocal_eq updateSrtlaIps_def genSrtlaIpList_def spawnSync_def
  fs_writeFileSync_def emit_def conn_send_def two_uplinks_state_def example_state_def
  wlan0_block_def eth0_reset_block_def

theorem updateNetif_throughput_witness:
  "map_of (netif (updateNetif (Some [wlan0_block]) two_uplinks_state)) ''wlan0'' =
     Some \<lparr>ip = ''10.0.0.7'', txb = 800, tp = 300, enabled = False\<rparr>
   \<and> map_of (netif two_uplinks_state) ''wlan0'' =
     Some \<lparr>ip = ''10.0.0.7'', txb = 500, tp = 0, enabled = False\<rparr>
   \<and> (300::int) = 800 - 500
   \<and> wlan0_block \<in> set [wlan0_block]
   \<and> if_txbytes wlan0_block = Some 800"
proof -
  have new: "map_of (netif (updateNetif (Some [wlan0_block]) two_uplinks_state)) ''wlan0'' =
      Some \<lparr>ip = ''10.0.0.7'', txb = 800, tp = 300, enabled = False\<rparr>"
    by (simp add: netif_eval)
  have old: "map_of (netif two_uplinks_state) ''wlan0'' =
      Some \<lparr>ip = ''10.0.0.7'', txb = 500, tp = 0, enabled = False\<rparr>"
    by (simp add: two_uplinks_state_def example_state_def)
  show ?thesis
    using updateNetif_throughput[OF new] new old by (simp add: wlan0_block_def)
qed

text \<open>
  Claim C4 as stated takes the throughput to be \<open>max 0 (tx_now - tx_prev)\<close>. When the
  counter of the wired uplink falls from 1000 to 400 the poll reports \<open>-600\<close>.
\<close>

theorem updateNetif_throughput_counterexample:
  "map_of (netif example_state) ''eth0'' =
     Some \<lparr>ip = ''192.168.1.10'', txb = 1000, tp = 0, enabled = True\<rparr>
   \<and> map_of (netif (updateNetif (Some [eth0_reset_block]) example_state)) ''eth0'' =
     Some \<lparr>ip = ''192.168.1.10'', txb = 400, tp = - 600, enabled = True\<rparr>
   \<and> (- 600 :: int) \<noteq> max 0 (400 - 1000)"
  by (simp add: netif_eval)

subsection \<open>Token authentication\<close>






text \<open>
  The names left out of the theorem above are a defect of the code. A token object is a
  plain object, and \<^verbatim>\<open>tokens["constructor"]\<close> is truthy although no such token was ever
  issued: a tab that presents the token \<^verbatim>\<open>constructor\<close> is let in without a password.
\<close>

lemma tryAuth_inherited_name:
  "''constructor'' \<notin> set (tempTokens guest_state)
   \<and> ''constructor'' \<notin> set (persistentTokens guest_state)
   \<and> fst (tryAuth (\<lambda>p h. False) [] guest_conn (token_msg ''constructor'') guest_state) =
       guest_conn\<lparr>isAuthed := True, authToken := Some ''constructor''\<rparr>"
  by (simp add: guest_state_def example_state_def tryAuth_def token_msg_def obj_get_def
      token_lookup_def inherited_truthy_def object_prototype_keys_def connAuth_def Let_def)

text \<open>
  The same holds of the token \<^verbatim>\<open>enabled\<close> in every state with a password in which
  \<^verbatim>\<open>Object.prototype.enabled\<close> is \<^verbatim>\<open>true\<close>.
\<close>

lemma tryAuth_assigned_name:
  assumes "truthy (obj_get (config s) ''password_hash'')" and "proto_enabled s = Some True"
  shows "fst (tryAuth compare fresh c (token_msg ''enabled'') s) =
       c\<lparr>isAuthed := True, authToken := Some ''enabled''\<rparr>"
  using assms
  by (simp add: tryAuth_def token_msg_def token_lookup_def inherited_truthy_def connAuth_def
      Let_def)

subsection \<open>Setting the password\<close>

lemma stringify_undefined [simp]: "(JSON_stringify v = JUndefined) = (v = JUndefined)"
  by (cases v) simp_all

lemma doc_get_stringify:
  "obj_get kvs k = v \<Longrightarrow> v \<noteq> JUndefined \<Longrightarrow>
   doc_get (JSON_stringify (JObj kvs)) k = JSON_stringify v"
  using map_of_stringify_Some[of kvs k v JSON_stringify]
  by (auto simp: obj_get_def split: option.splits)

lemma saveConfig_eq:
  "saveConfig s =
     s\<lparr>config := obj_delete (obj_set (config s) ''ssh_pass_hash'' (sshPasswordHash s))
                    ''ssh_pass_hash'',
       files := AList.update CONFIG_FILE
                  (Doc (JSON_stringify
                     (JObj (obj_set (config s) ''ssh_pass_hash'' (sshPasswordHash s)))))
                  (files s),
       trace := trace s @
                  [WriteFile CONFIG_FILE
                     (Doc (JSON_stringify
                        (JObj (obj_set (config s) ''ssh_pass_hash'' (sshPasswordHash s)))))]\<rparr>"
  by (simp add: saveConfig_def Let_def fs_writeFileSync_def emit_def)



subsection \<open>Persistent notifications\<close>

lemma broadcastMsg_eq:
  "broadcastMsg type data am s =
     s\<lparr>trace := trace s @ broadcast_events (buildMsg type data JUndefined) am s\<rparr>"
  by (simp add: broadcastMsg_def broadcastMsgLocal_eq broadcast_events_def conn_send_def
      emit_def split: option.splits)

lemma notificationSend_persistent:
  "notificationSend None N ty m d True dm s =
     (let lim = (case stored s N of None \<Rightarrow> False | Some pn \<Rightarrow> rate_limited pn (now s));
          s1 = s\<lparr>persistentNotifications :=
                  AList.update N
                    \<lparr>shown = \<lparr>n_name = N, n_type = ty, n_msg = m, is_dismissable = dm,
                              is_persistent = True, duration = d\<rparr>,
                     updated = now s,
                     last_sent = (if lim then (case stored s N of None \<Rightarrow> None
                                               | Some pn \<Rightarrow> last_sent pn)
                                  else Some (now s))\<rparr>
                    (persistentNotifications s)\<rparr>
      in if lim then (None, s1)
         else (Some True,
               s1\<lparr>trace := trace s @ broadcast_events (persistent_frame N ty m d dm) 0 s\<rparr>))"
  by (simp add: notificationSend_def Let_def stored_def getms_def broadcastMsg_eq
      persistent_frame_def broadcast_events_def cong: option.case_cong)

text \<open>
  Claim C7. A persistent send that names a connection is rejected: it returns
  \<^verbatim>\<open>false\<close> and the state, effects included, is unchanged. For broadcasts of a name \<open>N\<close>
  take three sends at the clock readings \<open>t1\<close>, \<open>t2\<close>, \<open>t3\<close>, where \<open>N\<close> is new or was last
  emitted at least a second before \<open>t1\<close>, the second send comes less than 1000 ms after the
  first, and the third at least 1000 ms after it (the first is the last emission by then).
  The first send emits one broadcast, the second emits nothing, the third emits one
  broadcast again; all three refresh \<open>updated\<close>; \<open>last_sent\<close> moves at the first and the
  third send only. The clock reading is positive, as the reading of a system clock that
  has been running is: the source tests \<open>last_sent\<close> for truthiness.
\<close>

theorem notificationSend_rate_limit:
  fixes s0 :: state and N :: string
    and ty1 m1 d1 dm1 t1 ty2 m2 d2 dm2 t2 ty3 m3 d3 dm3 t3
  defines "r1 \<equiv> notificationSend None N ty1 m1 d1 True dm1 (s0\<lparr>now := t1\<rparr>)"
  defines "r2 \<equiv> notificationSend None N ty2 m2 d2 True dm2 ((snd r1)\<lparr>now := t2\<rparr>)"
  defines "r3 \<equiv> notificationSend None N ty3 m3 d3 True dm3 ((snd r2)\<lparr>now := t3\<rparr>)"
  assumes fresh: "case stored s0 N of None \<Rightarrow> True | Some pn \<Rightarrow> \<not> rate_limited pn t1"
    and pos: "0 < t1" and near: "t2 < t1 + 1000" and far: "t1 + 1000 \<le> t3"
  shows "notificationSend (Some c) N ty m d True dm s = (Some False, s)
    \<and> fst r1 = Some True
    \<and> effects_of (s0\<lparr>now := t1\<rparr>) (snd r1)
        = broadcast_events (persistent_frame N ty1 m1 d1 dm1) 0 s0
    \<and> fst r2 = None
    \<and> effects_of ((snd r1)\<lparr>now := t2\<rparr>) (snd r2) = []
    \<and> fst r3 = Some True
    \<and> effects_of ((snd r2)\<lparr>now := t3\<rparr>) (snd r3)
        = broadcast_events (persistent_frame N ty3 m3 d3 dm3) 0 s0
    \<and> map_option updated (stored (snd r1) N) = Some t1
    \<and> map_option updated (stored (snd r2) N) = Some t2
    \<and> map_option updated (stored (snd r3) N) = Some t3
    \<and> map_option last_sent (stored (snd r1) N) = Some (Some t1)
    \<and> map_option last_sent (stored (snd r2) N) = Some (Some t1)
    \<and> map_option last_sent (stored (snd r3) N) = Some (Some t3)"
proof -
  have lim1: "\<not> (case stored (s0\<lparr>now := t1\<rparr>) N of None \<Rightarrow> False
                 | Some pn \<Rightarrow> rate_limited pn t1)"
    using fresh by (simp add: stored_def split: option.splits)
  have r1: "r1 = (Some True, s0\<lparr>now := t1,
        persistentNotifications := AList.update N
          \<lparr>shown = \<lparr>n_name = N, n_type = ty1, n_msg = m1, is_dismissable = dm1,
                    is_persistent = True, duration = d1\<rparr>, updated = t1, last_sent = Some t1\<rparr>
          (persistentNotifications s0),
        trace := trace s0 @ broadcast_events (persistent_frame N ty1 m1 d1 dm1) 0 s0\<rparr>)"
    using lim1
    by (simp add: r1_def notificationSend_persistent Let_def broadcast_events_def
        cong: option.case_cong)
  have r2: "r2 = (None, (snd r1)\<lparr>now := t2,
        persistentNotifications := AList.update N
          \<lparr>shown = \<lparr>n_name = N, n_type = ty2, n_msg = m2, is_dismissable = dm2,
                    is_persistent = True, duration = d2\<rparr>, updated = t2, last_sent = Some t1\<rparr>
          (persistentNotifications (snd r1))\<rparr>)"
    using pos near
    by (simp add: r2_def r1 notificationSend_persistent Let_def stored_def update_conv'
        rate_limited_def)
  have r3: "r3 = (Some True, (snd r2)\<lparr>now := t3,
        persistentNotifications := AList.update N
          \<lparr>shown = \<lparr>n_name = N, n_type = ty3, n_msg = m3, is_dismissable = dm3,
                    is_persistent = True, duration = d3\<rparr>, updated = t3, last_sent = Some t3\<rparr>
          (persistentNotifications (snd r2)),
        trace := trace (snd r2) @ broadcast_events (persistent_frame N ty3 m3 d3 dm3) 0 s0\<rparr>)"
    using far
    by (simp add: r3_def r2 r1 notificationSend_persistent Let_def stored_def update_conv'
        rate_limited_def broadcast_events_def)
  have rej: "notificationSend (Some c) N ty m d True dm s = (Some False, s)"
    by (simp add: notificationSend_def)
  show ?thesis
    by (simp add: rej r1 r2 r3 effects_of_def stored_def update_conv')
qed

theorem notificationSend_rate_limit_witness:
  "stored example_state ''belacoder'' = None
   \<and> (0::int) < 100000 \<and> (100500::int) < 100000 + 1000 \<and> (100000::int) + 1000 \<le> 101000
   \<and> effects_of (example_state\<lparr>now := 100000\<rparr>) (snd first_send)
       = [Send 1 (persistent_frame ''belacoder'' ''error'' ''belacoder stopped'' 0 True)]
   \<and> effects_of ((snd first_send)\<lparr>now := 100500\<rparr>) (snd second_send) = []
   \<and> effects_of ((snd second_send)\<lparr>now := 101000\<rparr>) (snd third_send)
       = [Send 1 (persistent_frame ''belacoder'' ''error'' ''belacoder stopped'' 0 True)]
   \<and> map_option updated (stored (snd second_send) ''belacoder'') = Some 100500
   \<and> map_option last_sent (stored (snd second_send) ''belacoder'') = Some (Some 100000)
   \<and> map_option last_sent (stored (snd third_send) ''belacoder'') = Some (Some 101000)"
proof -
  have st: "stored example_state ''belacoder'' = None"
    by (simp add: stored_def example_state_def)
  have ev: "\<And>f. broadcast_events f 0 example_state = [Send 1 f]"
    by (simp add: broadcast_events_def example_state_def example_conn_def receives_def)
  show ?thesis
    using notificationSend_rate_limit[where ?s0.0 = example_state and N = "''belacoder''"
        and ?t1.0 = 100000 and ?t2.0 = 100500 and ?t3.0 = 101000
        and ?ty1.0 = "''error''" and ?ty2.0 = "''error''" and ?ty3.0 = "''error''"
        and ?m1.0 = "''belacoder stopped''" and ?m2.0 = "''belacoder stopped''"
        and ?m3.0 = "''belacoder stopped''"
        and ?d1.0 = 0 and ?d2.0 = 0 and ?d3.0 = 0
        and ?dm1.0 = True and ?dm2.0 = True and ?dm3.0 = True]
    by (simp add: st ev first_send_def second_send_def third_send_def)
qed

subsection \<open>The remote tunnel and a rejected key\<close>







subsection \<open>Keys that stay out of the config object\<close>

lemma keys_obj_set [simp]: "set (obj_keys (obj_set ob k v)) = insert k (set (obj_keys ob))"
  by (simp add: obj_keys_def obj_set_def dom_update)

lemma keys_obj_delete [simp]: "set (obj_keys (obj_delete ob k)) = set (obj_keys ob) - {k}"
  by (induction ob) (auto simp: obj_keys_def obj_delete_def)

lemma keys_stringify:
  "set (doc_keys (JSON_stringify (JObj kvs))) \<subseteq> set (obj_keys kvs)"
  by (force simp: obj_keys_def)

lemma config_of_buildMsg:
  "doc_get (buildMsg type data ident) ''config'' =
     (if type = ''config'' then JSON_stringify data else JUndefined)"
  by (auto simp: buildMsg_def obj_set_def obj_get_def defined_member_def)

lemma tracked_cases: "tracked docs k \<Longrightarrow> k = ''password'' \<or> k = ''ssh_pass_hash''"
  by (auto simp: tracked_def)

lemma clean_emit:
  "clean_since n docs k s \<Longrightarrow> ev_clean docs k e \<Longrightarrow> clean_since n docs k (emit e s)"
  by (simp add: clean_since_def emit_def)

lemma clean_send_other:
  "clean_since n docs k s \<Longrightarrow> type \<noteq> ''config'' \<Longrightarrow>
   clean_since n docs k (conn_send c (buildMsg type data ident) s)"
  by (simp add: conn_send_def clean_emit config_of_buildMsg)

lemma clean_send_config:
  "clean_since n docs k s \<Longrightarrow>
   clean_since n docs k (conn_send c (buildMsg ''config'' (JObj (config s)) ident) s)"
  using keys_stringify[of "config s"]
  by (auto simp: conn_send_def clean_since_def emit_def config_of_buildMsg simp del: JSON_stringify.simps)

lemma clean_events:
  "clean_since n docs k s \<Longrightarrow> list_all (ev_clean docs k) es \<Longrightarrow>
   clean_since n docs k (s\<lparr>trace := trace s @ es\<rparr>)"
  by (simp add: clean_since_def)

lemma broadcast_events_clean:
  "k \<notin> set (doc_keys (doc_get msg ''config'')) \<Longrightarrow>
   list_all (ev_clean docs k) (broadcast_events msg am s)"
  by (auto simp: broadcast_events_def list_all_iff split: option.splits)

lemma clean_broadcast_other:
  "clean_since n docs k s \<Longrightarrow> type \<noteq> ''config'' \<Longrightarrow>
   clean_since n docs k (broadcastMsg type data am s)"
  by (simp add: broadcastMsg_eq clean_events broadcast_events_clean config_of_buildMsg)

lemma clean_broadcast_config:
  "clean_since n docs k s \<Longrightarrow>
   clean_since n docs k (broadcastMsg ''config'' (JObj (config s)) am s)"
  using keys_stringify[of "config s"]
  by (auto simp: broadcastMsg_eq clean_since_def config_of_buildMsg
      intro!: broadcast_events_clean simp del: JSON_stringify.simps)

lemma clean_broadcastLocal_other:
  "clean_since n docs k s \<Longrightarrow> type \<noteq> ''config'' \<Longrightarrow>
   clean_since n docs k (snd (broadcastMsgLocal type data am ex s))"
  by (auto simp: broadcastMsgLocal_eq clean_since_def list_all_iff config_of_buildMsg)

lemma broadcastMsgExcept_eq:
  "broadcastMsgExcept c type data s =
     s\<lparr>trace := trace s
         @ map (\<lambda>x. Send (cid x) (buildMsg type data JUndefined))
             (filter (receives 0 (Some c)) (clients s))
         @ (case remoteWs s of
              Some r \<Rightarrow> if isAuthed r then [Send (cid r) (buildMsg type data (senderId c))] else []
            | None \<Rightarrow> [])\<rparr>"
  by (simp add: broadcastMsgExcept_def broadcastMsgLocal_eq conn_send_def emit_def
      split: option.splits)

lemma clean_broadcastExcept_other:
  "clean_since n docs k s \<Longrightarrow> type \<noteq> ''config'' \<Longrightarrow>
   clean_since n docs k (broadcastMsgExcept c type data s)"
  by (auto simp: broadcastMsgExcept_eq clean_since_def list_all_iff config_of_buildMsg
      split: option.splits)

lemma clean_broadcastExcept_config:
  "clean_since n docs k s \<Longrightarrow>
   clean_since n docs k (broadcastMsgExcept c ''config'' (JObj (config s)) s)"
  using keys_stringify[of "config s"]
  by (auto simp: broadcastMsgExcept_eq clean_since_def list_all_iff config_of_buildMsg
      split: option.splits simp del: JSON_stringify.simps)

lemma clean_saveConfig:
  "tracked docs k \<Longrightarrow> clean_since n docs k s \<Longrightarrow> clean_since n docs k (saveConfig s)"
  using keys_stringify[of "obj_set (config s) ''ssh_pass_hash'' (sshPasswordHash s)"]
  by (auto simp: saveConfig_eq clean_since_def tracked_def simp del: JSON_stringify.simps)

lemma clean_spawnSync:
  "clean_since n docs k s \<Longrightarrow> clean_since n docs k (spawnSync cmd args s)"
  by (simp add: spawnSync_def clean_emit)

lemma clean_write_text:
  "clean_since n docs k s \<Longrightarrow> clean_since n docs k (fs_writeFileSync p (Text t) s)"
  by (simp add: fs_writeFileSync_def clean_since_def emit_def)

lemma clean_field_updates [simp]:
  "clean_since n docs k (s\<lparr>now := t\<rparr>) = clean_since n docs k s"
  "clean_since n docs k (s\<lparr>clients := cs\<rparr>) = clean_since n docs k s"
  "clean_since n docs k (s\<lparr>netif := tbl\<rparr>) = clean_since n docs k s"
  "clean_since n docs k (s\<lparr>isStreaming := b\<rparr>) = clean_since n docs k s"
  "clean_since n docs k (s\<lparr>persistentNotifications := pns\<rparr>) = clean_since n docs k s"
  "clean_since n docs k (s\<lparr>remoteWs := r\<rparr>) = clean_since n docs k s"
  "clean_since n docs k (s\<lparr>remoteStatusHandled := b\<rparr>) = clean_since n docs k s"
  "clean_since n docs k (s\<lparr>remoteConnectTimer := b\<rparr>) = clean_since n docs k s"
  "clean_since n docs k (s\<lparr>prevRemoteBindAddr := p\<rparr>) = clean_since n docs k s"
  "clean_since n docs k (s\<lparr>tempTokens := ts\<rparr>) = clean_since n docs k s"
  "clean_since n docs k (s\<lparr>persistentTokens := ts\<rparr>) = clean_since n docs k s"
  "clean_since n docs k (s\<lparr>sshPasswordHash := h\<rparr>) = clean_since n docs k s"
  "clean_since n docs k (s\<lparr>proto_enabled := pe\<rparr>) = clean_since n docs k s"
  "clean_since n docs k (s\<lparr>builtin_enabled := be\<rparr>) = clean_since n docs k s"
  by (simp_all add: clean_since_def)

lemma clean_config_update:
  "clean_since n docs k s \<Longrightarrow> k \<notin> set (obj_keys cfg) \<Longrightarrow>
   clean_since n docs k (s\<lparr>config := cfg\<rparr>)"
  by (simp add: clean_since_def)

lemma clean_config: "clean_since n docs k s \<Longrightarrow> k \<notin> set (obj_keys (config s))"
  by (simp add: clean_since_def)

lemma tracked_neq:
  assumes "tracked docs k"
  shows "k \<noteq> ''max_br''" "k \<noteq> ''delay''" "k \<noteq> ''pipeline''" "k \<noteq> ''srt_latency''"
    "k \<noteq> ''srt_streamid''" "k \<noteq> ''srtla_addr''" "k \<noteq> ''srtla_port''"
    "k \<noteq> ''remote_key''" "k \<noteq> ''ssh_pass''" "k \<noteq> ''password_hash''"
  using assms by (auto simp: tracked_def)

lemma clean_notificationSend:
  "clean_since n docs k s \<Longrightarrow>
   clean_since n docs k (snd (notificationSend c name type msg d p dm s))"
  by (auto simp: notificationSend_def Let_def clean_send_other clean_broadcast_other
      split: option.splits)

lemma clean_startError:
  "clean_since n docs k s \<Longrightarrow> clean_since n docs k (startError c msg ident s)"
  by (simp add: startError_def Let_def clean_send_other clean_notificationSend)

lemma clean_setBitrate:
  "tracked docs k \<Longrightarrow> clean_since n docs k s \<Longrightarrow>
   clean_since n docs k (snd (setBitrate rt ps s))"
  by (auto simp: setBitrate_def Let_def minBr_def clean_spawnSync clean_write_text
      clean_saveConfig clean_config_update clean_config tracked_neq)

lemma clean_genSrtlaIpList:
  "clean_since n docs k s \<Longrightarrow> clean_since n docs k (snd (genSrtlaIpList s))"
  by (simp add: genSrtlaIpList_def Let_def clean_write_text)

lemma clean_updateSrtlaIps:
  "clean_since n docs k s \<Longrightarrow> clean_since n docs k (updateSrtlaIps s)"
  by (simp add: updateSrtlaIps_def clean_spawnSync clean_genSrtlaIpList)

lemma clean_updateStatus:
  "clean_since n docs k s \<Longrightarrow> clean_since n docs k (updateStatus b s)"
  by (simp add: updateStatus_def clean_broadcast_other)

lemma clean_spawnStreamingLoop:
  "clean_since n docs k s \<Longrightarrow> clean_since n docs k (spawnStreamingLoop cmd args cd s)"
  by (simp add: spawnStreamingLoop_def clean_emit)

lemma clean_sendStatus:
  "clean_since n docs k s \<Longrightarrow> clean_since n docs k (sendStatus c s)"
  by (simp add: sendStatus_def clean_send_other)

lemma clean_stop:
  "clean_since n docs k s \<Longrightarrow> clean_since n docs k (stop s)"
  by (simp add: stop_def clean_spawnSync clean_updateStatus)

lemma clean_start_callback:
  "clean_since n docs k s \<Longrightarrow> clean_since n docs k (start_callback c sender path s)"
  by (cases "genSrtlaIpList s")
     (use clean_genSrtlaIpList[of n docs k s] in
       \<open>auto simp: start_callback_def Let_def clean_startError clean_updateStatus
          clean_spawnStreamingLoop\<close>)

lemma clean_updateConfig:
  assumes tr: "tracked docs k"
    and cb: "\<And>p s'. clean_since n docs k s' \<Longrightarrow> clean_since n docs k (callback p s')"
    and cl: "clean_since n docs k s"
  shows "clean_since n docs k (updateConfig rt dns c ps callback s)"
proof -
  obtain r s1 where sb: "setBitrate rt ps s = (r, s1)"
    by (cases "setBitrate rt ps s")
  have c1: "clean_since n docs k s1"
    using clean_setBitrate[OF tr cl, of rt ps] sb by simp
  show ?thesis
    using cl c1 sb
    by (auto simp: updateConfig_def Let_def clean_startError cb clean_saveConfig[OF tr]
        clean_broadcastExcept_config clean_config_update clean_config tracked_neq[OF tr]
        split: option.splits)
qed

lemma clean_start:
  "tracked docs k \<Longrightarrow> clean_since n docs k s \<Longrightarrow> clean_since n docs k (start rt dns c ps s)"
  by (simp add: start_def clean_sendStatus clean_updateConfig clean_start_callback)

lemma clean_handleMessage_bitrate:
  assumes tr: "tracked docs k" and cl: "clean_since n docs k s"
  shows "clean_since n docs k (handleMessage_bitrate rt c ps s)"
proof -
  obtain r s1 where sb: "setBitrate rt ps s = (r, s1)"
    by (cases "setBitrate rt ps s")
  have c1: "clean_since n docs k s1"
    using clean_setBitrate[OF tr cl, of rt ps] sb by simp
  show ?thesis
    using cl c1 sb
    by (auto simp: handleMessage_bitrate_def clean_broadcastExcept_other split: option.splits)
qed

lemma clean_handleNetif:
  "clean_since n docs k s \<Longrightarrow> clean_since n docs k (handleNetif c m s)"
  by (auto simp: handleNetif_def assign_enabled_def Let_def clean_send_other
      clean_notificationSend clean_updateSrtlaIps split: option.splits netif_ref.splits)

lemma clean_updateNetif:
  "clean_since n docs k s \<Longrightarrow> clean_since n docs k (updateNetif res s)"
  by (auto simp: updateNetif_def Let_def clean_broadcast_other clean_updateSrtlaIps
      split: option.splits prod.splits)

lemma clean_setPassword:
  "tracked docs k \<Longrightarrow> clean_since n docs k s \<Longrightarrow>
   clean_since n docs k (setPassword h c pw r s)"
  by (auto simp: setPassword_def Let_def clean_notificationSend clean_saveConfig
      clean_config_update clean_config tracked_neq)

lemma clean_resetSshPassword:
  assumes tr: "tracked docs k" and cl: "clean_since n docs k s"
  shows "clean_since n docs k (resetSshPassword c failed pw shadow s)"
  using cl
  by (auto simp: resetSshPassword_def Let_def clean_notificationSend clean_saveConfig[OF tr]
      clean_broadcast_config clean_config_update clean_config tracked_neq[OF tr]
      split: option.splits)

lemma clean_notificationRemove:
  "clean_since n docs k s \<Longrightarrow> clean_since n docs k (notificationRemove name s)"
  by (simp add: notificationRemove_def clean_broadcast_other)

lemma clean_notificationSendPersistent:
  "clean_since n docs k s \<Longrightarrow> clean_since n docs k (notificationSendPersistent c s)"
  by (simp add: notificationSendPersistent_def Let_def clean_send_other)

lemma clean_store_conn [simp]:
  "clean_since n docs k (store_conn c s) = clean_since n docs k s"
  by (simp add: store_conn_def clean_since_def)

lemma clean_sendInitialStatus:
  "clean_since n docs k s \<Longrightarrow> clean_since n docs k (sendInitialStatus c s)"
  by (simp add: sendInitialStatus_def Let_def clean_send_other clean_send_config
      clean_sendStatus clean_notificationSendPersistent)

lemma clean_connAuth:
  "clean_since n docs k s \<Longrightarrow> clean_since n docs k (snd (connAuth c tok s))"
  by (simp add: connAuth_def Let_def clean_send_other clean_sendInitialStatus)

lemma clean_genAuthToken:
  "clean_since n docs k s \<Longrightarrow> clean_since n docs k (snd (genAuthToken t p s))"
  by (simp add: genAuthToken_def savePersistentTokens_def fs_writeFileSync_def
      clean_since_def emit_def AUTH_TOKENS_FILE_def CONFIG_FILE_def)

lemma clean_tryAuth:
  assumes cl: "clean_since n docs k s"
  shows "clean_since n docs k (snd (tryAuth cmp fresh c m s))"
proof -
  obtain tok s1 where g: "genAuthToken fresh (a_persistent_token m) s = (tok, s1)"
    by (cases "genAuthToken fresh (a_persistent_token m) s")
  have c1: "clean_since n docs k s1"
    using clean_genAuthToken[OF cl, of fresh "a_persistent_token m"] g by simp
  obtain c2 s2 where a: "connAuth c None s = (c2, s2)"
    by (cases "connAuth c None s")
  have c2: "clean_since n docs k s2"
    using clean_connAuth[OF cl, of c None] a by simp
  show ?thesis
    using cl c1 c2 g a
    by (auto simp: tryAuth_def Let_def clean_send_other clean_notificationSend clean_connAuth
        split: option.splits prod.splits)
qed

lemma clean_handleMessage_auth:
  "clean_since n docs k s \<Longrightarrow> clean_since n docs k (snd (handleMessage_auth cmp fresh r c m s))"
  by (simp add: handleMessage_auth_def clean_tryAuth)

lemma clean_handleRemote_type:
  "clean_since n docs k (snd cs) \<Longrightarrow> clean_since n docs k (snd (handleRemote_type kv cs))"
  by (cases cs)
     (auto simp: handleRemote_type_def Let_def clean_emit clean_broadcastLocal_other
        clean_sendInitialStatus)

lemma clean_handleRemote_fold:
  "clean_since n docs k (snd cs) \<Longrightarrow>
   clean_since n docs k (snd (fold handleRemote_type msg cs))"
  by (induction msg arbitrary: cs) (simp_all add: clean_handleRemote_type)

lemma clean_handleRemote:
  "clean_since n docs k s \<Longrightarrow> clean_since n docs k (snd (handleRemote c msg s))"
  by (simp add: handleRemote_def clean_handleRemote_fold)

lemma clean_remoteClose:
  "clean_since n docs k s \<Longrightarrow> clean_since n docs k (remoteClose c s)"
  by (simp add: remoteClose_def Let_def clean_emit clean_broadcastLocal_other)

lemma clean_remoteConnect:
  "clean_since n docs k s \<Longrightarrow> clean_since n docs k (remoteConnect w s)"
  by (auto simp: remoteConnect_def getRemoteBindAddr_def Let_def clean_emit
      split: option.splits)

lemma clean_setRemoteKey:
  assumes tr: "tracked docs k" and cl: "clean_since n docs k s"
  shows "clean_since n docs k (setRemoteKey key w s)"
  using cl
  by (auto simp: setRemoteKey_def Let_def clean_emit clean_saveConfig[OF tr]
      clean_remoteConnect clean_broadcast_config clean_config_update clean_config
      tracked_neq[OF tr] split: option.splits)

lemma clean_step:
  "tracked docs k \<Longrightarrow> clean_since n docs k s \<Longrightarrow> clean_since n docs k (step r s)"
  by (cases r)
     (simp_all add: clean_start clean_stop clean_handleMessage_bitrate clean_handleNetif
        clean_setPassword clean_setRemoteKey clean_handleMessage_auth clean_resetSshPassword
        clean_updateNetif clean_notificationSend clean_notificationRemove clean_handleRemote
        clean_remoteClose clean_remoteConnect)

lemma clean_run:
  "tracked docs k \<Longrightarrow> clean_since n docs k s \<Longrightarrow> clean_since n docs k (run rs s)"
  unfolding run_def
  by (induction rs arbitrary: s) (simp_all add: clean_step)

subsection \<open>The SSH password hash and the plaintext password\<close>

lemma obj_set_absent:
  "k \<notin> set (obj_keys ob) \<Longrightarrow> obj_set ob k v = ob @ [(k, v)]"
  by (induction ob) (auto simp: obj_set_def obj_keys_def)

lemma delete_absent: "k \<notin> set (obj_keys ob) \<Longrightarrow> obj_delete ob k = ob"
  by (induction ob) (auto simp: obj_delete_def obj_keys_def)

lemma delete_set_absent:
  "k \<notin> set (obj_keys ob) \<Longrightarrow> obj_delete (obj_set ob k v) k = ob"
  by (induction ob) (auto simp: obj_set_def obj_delete_def obj_keys_def)

lemma saveConfig_config:
  "''ssh_pass_hash'' \<notin> set (obj_keys (config s)) \<Longrightarrow> config (saveConfig s) = config s"
  by (simp add: saveConfig_eq delete_set_absent)

lemma stringify_set_absent_keys:
  assumes "k \<notin> set (obj_keys ob)"
  shows "(k \<in> set (doc_keys (JSON_stringify (JObj (obj_set ob k v))))) = (v \<noteq> JUndefined)"
  using assms keys_stringify[of ob]
  by (auto simp: obj_set_absent defined_member_def obj_keys_def)

lemma stringify_set_absent_get:
  assumes "k \<notin> set (obj_keys ob)"
  shows "doc_get (JSON_stringify (JObj (obj_set ob k v))) k = JSON_stringify v"
proof (cases "v = JUndefined")
  case True
  have "k \<notin> set (doc_keys (JSON_stringify (JObj (obj_set ob k v))))"
    using stringify_set_absent_keys[OF assms, of v] True by simp
  then have "map_of (filter defined_member (map (map_prod id JSON_stringify) (obj_set ob k v))) k = None"
    by (simp add: map_of_eq_None_iff)
  then show ?thesis using True by (simp add: obj_get_def)
next
  case False
  then show ?thesis using doc_get_stringify[of "obj_set ob k v" k v] by simp
qed

lemma clean_load_parsed:
  "load_parsed v s0 = Some s1 \<Longrightarrow>
   clean_since (length (trace s0)) False ''ssh_pass_hash'' s1"
  by (cases v)
     (auto simp: load_parsed_def Let_def emit_def clean_since_def obj_keys_def[of "[]"])

lemma clean_loadConfig:
  assumes "loadConfig parse s0 = Some s1"
  shows "clean_since (length (trace s0)) False ''ssh_pass_hash'' s1"
proof -
  have empty: "clean_since (length (trace s0)) False ''ssh_pass_hash'' (s0\<lparr>config := []\<rparr>)"
    by (simp add: clean_since_def obj_keys_def)
  show ?thesis
  proof (cases "read_file s0 CONFIG_FILE")
    case None
    then show ?thesis using assms empty by (simp add: loadConfig_def)
  next
    case (Some f)
    show ?thesis
    proof (cases f)
      case (Doc v)
      then show ?thesis using assms Some by (simp add: loadConfig_def clean_load_parsed)
    next
      case (Text t)
      then show ?thesis
        using assms Some empty
        by (cases "parse t") (simp_all add: loadConfig_def clean_load_parsed)
    qed
  qed
qed

text \<open>
  The load fails to give a state of the model exactly when the file parses to an array, a
  number, a string or a boolean, which the daemon keeps as its config.
\<close>

lemma load_parsed_None:
  "(load_parsed v s = None) =
     (case v of JBool b \<Rightarrow> True | JNum n \<Rightarrow> True | JStr x \<Rightarrow> True | JArr xs \<Rightarrow> True
      | _ \<Rightarrow> False)"
  by (cases v) (simp_all add: load_parsed_def Let_def)

text \<open>The value parsed from the config file is printed with the hash still in it.\<close>

lemma load_parsed_prints:
  "load_parsed (JObj kvs) s = Some s1 \<Longrightarrow> effects_of s s1 = [ConsoleLog (JObj kvs)]"
  by (auto simp: load_parsed_def Let_def emit_def effects_of_def)

lemma clean_sends:
  assumes "clean_since n docs k s" and "Send c f \<in> set (drop n (trace s))"
  shows "k \<notin> set (doc_keys (doc_get f ''config''))"
  using assms by (auto simp: clean_since_def list_all_iff)

lemma clean_docs:
  assumes "clean_since n True k s" and "WriteFile CONFIG_FILE (Doc d) \<in> set (drop n (trace s))"
  shows "k \<notin> set (doc_keys d)"
  using assms by (auto simp: clean_since_def list_all_iff)

text \<open>
  Claim C9, as amended. Let the daemon start with a config file that is missing, does not
  parse, or parses to an object or to \<^verbatim>\<open>null\<close>, and take any state \<open>s\<close> that it reaches
  from there by any sequence of handled events. The config object of \<open>s\<close> has no key
  \<open>ssh_pass_hash\<close>; no frame sent since the start carries a \<^verbatim>\<open>config\<close> member with that
  key; and \<^verbatim>\<open>saveConfig\<close> in \<open>s\<close> leaves the config object as it was, its one effect being
  the write of a document \<open>d\<close> to the config file. In \<open>d\<close> the member \<open>ssh_pass_hash\<close> is
  the hash the daemon holds: the key is present exactly when a hash is held (the variable
  is not \<^verbatim>\<open>undefined\<close>), and absent from the file otherwise. The print of the parsed file
  at the start is not a frame, and it shows the object as parsed, with the key.
\<close>

theorem ssh_pass_hash_kept_out:
  fixes parse s0 s1 rs
  defines "s \<equiv> run rs s1"
  assumes loaded: "loadConfig parse s0 = Some s1"
  shows "''ssh_pass_hash'' \<notin> set (obj_keys (config s))
    \<and> (\<forall>c f. Send c f \<in> set (effects_of s0 s)
           \<longrightarrow> ''ssh_pass_hash'' \<notin> set (doc_keys (doc_get f ''config'')))
    \<and> config (saveConfig s) = config s
    \<and> (\<exists>d. effects_of s (saveConfig s) = [WriteFile CONFIG_FILE (Doc d)]
          \<and> read_file (saveConfig s) CONFIG_FILE = Some (Doc d)
          \<and> doc_get d ''ssh_pass_hash'' = JSON_stringify (sshPasswordHash s)
          \<and> (''ssh_pass_hash'' \<in> set (doc_keys d)) = (sshPasswordHash s \<noteq> JUndefined))"
proof -
  have tr: "tracked False ''ssh_pass_hash''"
    by (simp add: tracked_def)
  have cl: "clean_since (length (trace s0)) False ''ssh_pass_hash'' s"
    unfolding s_def by (rule clean_run[OF tr clean_loadConfig[OF loaded]])
  have k: "''ssh_pass_hash'' \<notin> set (obj_keys (config s))"
    using cl by (simp add: clean_since_def)
  have sends: "\<forall>c f. Send c f \<in> set (effects_of s0 s)
      \<longrightarrow> ''ssh_pass_hash'' \<notin> set (doc_keys (doc_get f ''config''))"
    using clean_sends[OF cl] by (simp add: effects_of_def)
  define d where
    "d = JSON_stringify (JObj (obj_set (config s) ''ssh_pass_hash'' (sshPasswordHash s)))"
  have 1: "effects_of s (saveConfig s) = [WriteFile CONFIG_FILE (Doc d)]"
    by (simp add: saveConfig_eq effects_of_def d_def)
  have 2: "read_file (saveConfig s) CONFIG_FILE = Some (Doc d)"
    by (simp add: saveConfig_eq read_file_def update_conv' d_def)
  have 3: "doc_get d ''ssh_pass_hash'' = JSON_stringify (sshPasswordHash s)"
    unfolding d_def by (rule stringify_set_absent_get[OF k])
  have 4: "(''ssh_pass_hash'' \<in> set (doc_keys d)) = (sshPasswordHash s \<noteq> JUndefined)"
    unfolding d_def by (rule stringify_set_absent_keys[OF k])
  from k sends saveConfig_config[OF k] 1 2 3 4 show ?thesis by blast
qed

text \<open>
  Claim C10. Let a password set succeed in any state \<open>s\<close> (the request is permitted and
  the password has at least 8 characters), giving \<open>s1\<close>, and let any sequence of handled
  events follow, giving \<open>s2\<close>. The config object of \<open>s1\<close> has no key \<open>password\<close> and holds
  the hash; the one effect of the set is the write of a config document without the key
  \<open>password\<close> and with the hash. The config object of \<open>s2\<close> has no key \<open>password\<close> either,
  and from the set on no frame carries a \<^verbatim>\<open>config\<close> member with that key and no document
  written to the config file has it.
\<close>

theorem plaintext_password_removed:
  fixes hashSync c password isRemote s rs
  defines "s1 \<equiv> setPassword hashSync c password isRemote s"
  defines "s2 \<equiv> run rs s1"
  assumes perm: "password_set_permitted c isRemote s" and len: "8 \<le> length password"
  shows "''password'' \<notin> set (obj_keys (config s1))
    \<and> obj_get (config s1) ''password_hash'' = JStr (hashSync password 10)
    \<and> (\<exists>d. effects_of s s1 = [WriteFile CONFIG_FILE (Doc d)]
          \<and> ''password'' \<notin> set (doc_keys d)
          \<and> doc_get d ''password_hash'' = JStr (hashSync password 10))
    \<and> ''password'' \<notin> set (obj_keys (config s2))
    \<and> (\<forall>c f. Send c f \<in> set (effects_of s s2)
           \<longrightarrow> ''password'' \<notin> set (doc_keys (doc_get f ''config'')))
    \<and> (\<forall>d. WriteFile CONFIG_FILE (Doc d) \<in> set (effects_of s s2)
           \<longrightarrow> ''password'' \<notin> set (doc_keys d))"
proof -
  have tr: "tracked True ''password''"
    by (simp add: tracked_def)
  define cfg where "cfg = obj_delete (obj_set (config s) ''password_hash''
      (JStr (hashSync password 10))) ''password''"
  define d where
    "d = JSON_stringify (JObj (obj_set cfg ''ssh_pass_hash'' (sshPasswordHash s)))"
  have p: "isAuthed c \<or> (\<not> isRemote \<and> \<not> truthy (obj_get (config s) ''password_hash''))"
    using perm by (auto simp: password_set_permitted_def)
  have s1: "s1 = saveConfig (s\<lparr>config := cfg\<rparr>)"
    using p len by (simp add: s1_def setPassword_def Let_def cfg_def BCRYPT_ROUNDS_def)
  have kc: "''password'' \<notin> set (obj_keys cfg)"
    by (simp add: cfg_def)
  have k1: "''password'' \<notin> set (obj_keys (config s1))"
    using kc by (simp add: s1 saveConfig_eq)
  have e1: "effects_of s s1 = [WriteFile CONFIG_FILE (Doc d)]"
    by (simp add: s1 saveConfig_eq effects_of_def d_def)
  have kd: "''password'' \<notin> set (doc_keys d)"
    unfolding d_def
    using keys_stringify[of "obj_set cfg ''ssh_pass_hash'' (sshPasswordHash s)"] kc
    by (auto simp del: JSON_stringify.simps)
  have g: "obj_get cfg ''password_hash'' = JStr (hashSync password 10)"
    by (simp add: cfg_def)
  have h1: "obj_get (config s1) ''password_hash'' = JStr (hashSync password 10)"
    by (simp add: s1 saveConfig_eq g)
  have hd: "doc_get d ''password_hash'' = JStr (hashSync password 10)"
    unfolding d_def
    using doc_get_stringify[of "obj_set cfg ''ssh_pass_hash'' (sshPasswordHash s)"
        "''password_hash''" "JStr (hashSync password 10)"] g
    by simp
  have tl: "length (trace s) \<le> length (trace s1)"
    by (simp add: s1 saveConfig_eq)
  have cl1: "clean_since (length (trace s)) True ''password'' s1"
    using k1 tl e1 kd by (simp add: clean_since_def effects_of_def CONFIG_FILE_def)
  have cl2: "clean_since (length (trace s)) True ''password'' s2"
    unfolding s2_def by (rule clean_run[OF tr cl1])
  have k2: "''password'' \<notin> set (obj_keys (config s2))"
    using cl2 by (simp add: clean_since_def)
  have sends: "\<forall>c f. Send c f \<in> set (effects_of s s2)
      \<longrightarrow> ''password'' \<notin> set (doc_keys (doc_get f ''config''))"
    using clean_sends[OF cl2] by (simp add: effects_of_def)
  have docs: "\<forall>d. WriteFile CONFIG_FILE (Doc d) \<in> set (effects_of s s2)
      \<longrightarrow> ''password'' \<notin> set (doc_keys d)"
    using clean_docs[OF cl2] by (simp add: effects_of_def)
  from k1 h1 e1 kd hd k2 sends docs show ?thesis by blast
qed

lemma loaded_stored_hash:
  "loadConfig parse stored_hash_state = Some loaded_hash_state"
  by (simp add: loadConfig_def load_parsed_def Let_def emit_def read_file_def
      stored_hash_state_def loaded_hash_state_def example_state_def CONFIG_FILE_def
      obj_get_def obj_delete_def)

lemma startup_print_shows_hash:
  "effects_of stored_hash_state loaded_hash_state =
     [ConsoleLog (JObj [(''password_hash'', JStr ''$2b$10$abcdefgh''),
                        (''ssh_pass_hash'', JStr ''user:$6$salt$hash:19000::::::'')])]"
  by (simp add: effects_of_def stored_hash_state_def loaded_hash_state_def example_state_def)

lemma after_ssh_reset:
  "effects_of stored_hash_state (run [ssh_reset] loaded_hash_state) =
     [ConsoleLog (JObj [(''password_hash'', JStr ''$2b$10$abcdefgh''),
                        (''ssh_pass_hash'', JStr ''user:$6$salt$hash:19000::::::'')]),
      WriteFile ''config.json''
        (Doc (JObj [(''password_hash'', JStr ''$2b$10$abcdefgh''),
                    (''ssh_pass'', JStr ''n3wp4ssw0rd''),
                    (''ssh_pass_hash'', JStr ''user:$6$salt$new:19001::::::'')])),
      Send 1 (JObj [(''config'', JObj [(''password_hash'', JStr ''$2b$10$abcdefgh''),
                                        (''ssh_pass'', JStr ''n3wp4ssw0rd'')])])]
   \<and> sshPasswordHash (run [ssh_reset] loaded_hash_state)
       = JStr ''user:$6$salt$new:19001::::::''"
  by (simp add: run_def ssh_reset_def resetSshPassword_def stored_hash_state_def
      loaded_hash_state_def
      example_state_def example_setup_def example_conn_def saveConfig_eq broadcastMsg_eq
      broadcast_events_def receives_def effects_of_def buildMsg_def obj_set_def obj_delete_def
      defined_member_def CONFIG_FILE_def Let_def)

text \<open>
  The appliance loads a config file that holds an SSH password hash, and the operator then
  resets the SSH password: the file written carries the new hash, the \<^verbatim>\<open>config\<close> frame
  broadcast to the authenticated tab does not.
\<close>

theorem ssh_pass_hash_kept_out_witness:
  "loadConfig (\<lambda>t. None) stored_hash_state = Some loaded_hash_state
   \<and> Send 1 (JObj [(''config'', JObj [(''password_hash'', JStr ''$2b$10$abcdefgh''),
                                     (''ssh_pass'', JStr ''n3wp4ssw0rd'')])])
     \<in> set (effects_of stored_hash_state (run [ssh_reset] loaded_hash_state))
   \<and> ''ssh_pass_hash''
        \<notin> set (doc_keys (doc_get
              (JObj [(''config'', JObj [(''password_hash'', JStr ''$2b$10$abcdefgh''),
                                        (''ssh_pass'', JStr ''n3wp4ssw0rd'')])])
              ''config''))
   \<and> ''ssh_pass_hash''
        \<notin> set (obj_keys (config (run [ssh_reset] loaded_hash_state)))
   \<and> sshPasswordHash (run [ssh_reset] loaded_hash_state) \<noteq> JUndefined
   \<and> (\<exists>d. read_file (saveConfig (run [ssh_reset] loaded_hash_state)) CONFIG_FILE
              = Some (Doc d)
          \<and> ''ssh_pass_hash'' \<in> set (doc_keys d))"
proof -
  have ld: "loadConfig (\<lambda>t. None) stored_hash_state = Some loaded_hash_state"
    by (rule loaded_stored_hash)
  note T = ssh_pass_hash_kept_out[OF ld, where rs = "[ssh_reset]"]
  have mem: "Send 1 (JObj [(''config'', JObj [(''password_hash'', JStr ''$2b$10$abcdefgh''),
                                     (''ssh_pass'', JStr ''n3wp4ssw0rd'')])])
      \<in> set (effects_of stored_hash_state (run [ssh_reset] loaded_hash_state))"
    using after_ssh_reset by simp
  have h: "sshPasswordHash (run [ssh_reset] loaded_hash_state) \<noteq> JUndefined"
    using after_ssh_reset by simp
  have a: "''ssh_pass_hash''
        \<notin> set (doc_keys (doc_get
              (JObj [(''config'', JObj [(''password_hash'', JStr ''$2b$10$abcdefgh''),
                                        (''ssh_pass'', JStr ''n3wp4ssw0rd'')])])
              ''config''))"
    using T mem by blast
  have b: "''ssh_pass_hash''
        \<notin> set (obj_keys (config (run [ssh_reset] loaded_hash_state)))"
    using T by blast
  have c: "\<exists>d. read_file (saveConfig (run [ssh_reset] loaded_hash_state))
                CONFIG_FILE = Some (Doc d)
          \<and> ''ssh_pass_hash'' \<in> set (doc_keys d)"
    using T h by blast
  from ld mem a b h c show ?thesis by blast
qed

text \<open>
  Claim C9 as stated has the key on disk always. On first run there is no config file and
  no SSH password hash is held, and the config file written by the first password set has
  no such key.
\<close>

theorem ssh_pass_hash_on_disk_counterexample:
  "loadConfig (\<lambda>t. None) first_run_state = Some no_password_state
   \<and> sshPasswordHash no_password_state = JUndefined
   \<and> read_file (setPassword example_hash guest_conn ''hunter2x'' False no_password_state)
        CONFIG_FILE
      = Some (Doc (JObj [(''password_hash'', JStr (example_hash ''hunter2x'' 10))]))
   \<and> ''ssh_pass_hash''
        \<notin> set (doc_keys (JObj [(''password_hash'', JStr (example_hash ''hunter2x'' 10))]))"
  by (simp add: no_password_state_def first_run_state_def loadConfig_def read_file_def
      example_state_def
      guest_conn_def setPassword_def Let_def obj_get_def obj_set_def obj_delete_def
      saveConfig_def fs_writeFileSync_def emit_def CONFIG_FILE_def BCRYPT_ROUNDS_def
      defined_member_def)

lemma legacy_password_set:
  "setPassword example_hash guest_conn ''hunter2x'' False legacy_state =
     legacy_state
       \<lparr>config := [(''password_hash'', JStr (example_hash ''hunter2x'' 10))],
        files := [(''config.json'',
                   Doc (JObj [(''password_hash'', JStr (example_hash ''hunter2x'' 10))]))],
        trace := [WriteFile ''config.json''
                    (Doc (JObj [(''password_hash'', JStr (example_hash ''hunter2x'' 10))]))]\<rparr>"
  by (simp add: legacy_state_def no_password_state_def first_run_state_def read_file_def
      example_state_def guest_conn_def setPassword_def Let_def obj_get_def obj_set_def
      obj_delete_def saveConfig_def fs_writeFileSync_def emit_def BCRYPT_ROUNDS_def
      defined_member_def CONFIG_FILE_def)

text \<open>
  A config file written by hand had a plaintext \<open>password\<close> in it. The first password
  set removes the key, and the config file written by a later change of the password does
  not have it.
\<close>

theorem plaintext_password_removed_witness:
  "password_set_permitted guest_conn False legacy_state
   \<and> 8 \<le> length ''hunter2x''
   \<and> ''password'' \<in> set (obj_keys (config legacy_state))
   \<and> ''password''
        \<notin> set (obj_keys (config (setPassword example_hash guest_conn ''hunter2x'' False
                                   legacy_state)))
   \<and> WriteFile CONFIG_FILE
        (Doc (JObj [(''password_hash'', JStr (example_hash ''correcthorse'' 10))]))
        \<in> set (effects_of legacy_state
              (run [Password example_hash example_conn ''correcthorse'' False]
                 (setPassword example_hash guest_conn ''hunter2x'' False legacy_state)))
   \<and> ''password''
        \<notin> set (doc_keys (JObj [(''password_hash'', JStr (example_hash ''correcthorse'' 10))]))"
proof -
  have p: "password_set_permitted guest_conn False legacy_state"
    by (simp add: password_set_permitted_def legacy_state_def guest_conn_def obj_get_def)
  have l: "8 \<le> length ''hunter2x''"
    by simp
  have old: "''password'' \<in> set (obj_keys (config legacy_state))"
    by (simp add: legacy_state_def obj_keys_def)
  have mem: "WriteFile CONFIG_FILE
        (Doc (JObj [(''password_hash'', JStr (example_hash ''correcthorse'' 10))]))
        \<in> set (effects_of legacy_state
              (run [Password example_hash example_conn ''correcthorse'' False]
                 (setPassword example_hash guest_conn ''hunter2x'' False legacy_state)))"
    unfolding legacy_password_set
    by (simp add: run_def setPassword_def example_conn_def Let_def saveConfig_eq obj_set_def
        obj_delete_def defined_member_def BCRYPT_ROUNDS_def effects_of_def legacy_state_def
        no_password_state_def first_run_state_def read_file_def example_state_def)
  note T = plaintext_password_removed[OF p l, where hashSync = example_hash
      and rs = "[Password example_hash example_conn ''correcthorse'' False]"]
  have a: "''password''
        \<notin> set (obj_keys (config (setPassword example_hash guest_conn ''hunter2x'' False
                                   legacy_state)))"
    using T by blast
  have b: "''password''
        \<notin> set (doc_keys (JObj [(''password_hash'', JStr (example_hash ''correcthorse'' 10))]))"
    using T mem by blast
  from p l old a mem b show ?thesis by blast
qed

end
